theory Spec2Isabelle
  imports Complex_Main
begin

section \<open>Python values used by the service\<close>

text \<open>
  The backend is Python. Exceptions are values: an exception carries its class and the
  string that \<^verbatim>\<open>str(e)\<close> returns. A computation that may raise returns
  \<open>py_exception + 'a\<close>, with \<open>Inl\<close> for the raised exception.
\<close>

datatype exc_class = ValueError | AttributeError | KeyError | TypeError | OtherException string

datatype py_exception = Exc exc_class string

fun exc_class_of :: "py_exception \<Rightarrow> exc_class" where
  "exc_class_of (Exc c m) = c"

fun exc_str :: "py_exception \<Rightarrow> string" where
  "exc_str (Exc c m) = m"

text \<open>\<^verbatim>\<open>isinstance(e, ValueError)\<close>\<close>

definition is_ValueError :: "py_exception \<Rightarrow> bool" where
  "is_ValueError e = (exc_class_of e = ValueError)"

text \<open>Sequencing of statements that may raise: the first exception ends the block.\<close>

definition ebind :: "py_exception + 'a \<Rightarrow> ('a \<Rightarrow> py_exception + 'b) \<Rightarrow> py_exception + 'b" where
  "ebind m f = (case m of Inl e \<Rightarrow> Inl e | Inr v \<Rightarrow> f v)"

text \<open>
  Python floats are idealised as exact reals, with one extra value for NaN where pandas
  produces it (a reduction over no values). \<^verbatim>\<open>round(x, n)\<close> rounds half to even at
  \<open>n\<close> decimal digits.
\<close>

datatype pyfloat = Fin real | NaN

definition round_half_even :: "real \<Rightarrow> int" where
  "round_half_even y =
     (let f = \<lfloor>y\<rfloor>; d = y - of_int f in
      if d < 1 / 2 then f
      else if 1 / 2 < d then f + 1
      else if even f then f else f + 1)"

definition py_round :: "real \<Rightarrow> nat \<Rightarrow> real" where
  "py_round x ndigits = of_int (round_half_even (x * 10 ^ ndigits)) / 10 ^ ndigits"

text \<open>Truthiness of an optional float, as \<^verbatim>\<open>x or y\<close> tests it: \<^verbatim>\<open>None\<close> and zero are false.\<close>

fun float_truthy :: "pyfloat option \<Rightarrow> bool" where
  "float_truthy None = False"
| "float_truthy (Some (Fin x)) = (x \<noteq> 0)"
| "float_truthy (Some NaN) = True"

text \<open>\<^verbatim>\<open>a > b\<close> on floats: every comparison with NaN is false.\<close>

fun py_gt :: "pyfloat \<Rightarrow> pyfloat \<Rightarrow> bool" where
  "py_gt (Fin a) (Fin b) = (b < a)"
| "py_gt a b = False"

text \<open>The builtin \<^verbatim>\<open>max(a, b)\<close>: \<open>b\<close> replaces \<open>a\<close> only when \<^verbatim>\<open>b > a\<close>.\<close>

definition py_max2 :: "pyfloat \<Rightarrow> pyfloat \<Rightarrow> pyfloat" where
  "py_max2 a b = (if py_gt b a then b else a)"

subsection \<open>Strings\<close>

text \<open>
  A character is a code point below 256. \<^verbatim>\<open>c.isspace()\<close> holds there for the
  ASCII white space, the separators 28 to 31, the next-line character U+0085 and the
  no-break space U+00A0.
\<close>

definition py_isspace :: "char \<Rightarrow> bool" where
  "py_isspace c = (of_char c \<in> {9, 10, 11, 12, 13, 28, 29, 30, 31, 32, 133, 160 :: nat})"

text \<open>\<^verbatim>\<open>s.strip()\<close>\<close>

definition py_strip :: "string \<Rightarrow> string" where
  "py_strip s = rev (dropWhile py_isspace (rev (dropWhile py_isspace s)))"

text \<open>\<^verbatim>\<open>s.lower()\<close> on the ASCII letters.\<close>

definition char_lower :: "char \<Rightarrow> char" where
  "char_lower c =
     (let n = (of_char c :: nat) in if 65 \<le> n \<and> n \<le> 90 then char_of (n + 32) else c)"

definition py_lower :: "string \<Rightarrow> string" where
  "py_lower s = map char_lower s"

text \<open>\<^verbatim>\<open>sep.join(parts)\<close>\<close>

fun py_join :: "string \<Rightarrow> string list \<Rightarrow> string" where
  "py_join sep [] = []"
| "py_join sep [p] = p"
| "py_join sep (p # q # ps) = p @ sep @ py_join sep (q # ps)"

text \<open>\<^verbatim>\<open>s.split(c)\<close> for a one-character separator.\<close>

fun py_split :: "char \<Rightarrow> string \<Rightarrow> string list" where
  "py_split sep [] = [[]]"
| "py_split sep (c # cs) =
     (if c = sep then [] # py_split sep cs
      else (case py_split sep cs of [] \<Rightarrow> [[c]] | p # ps \<Rightarrow> (c # p) # ps))"

text \<open>
  \<^verbatim>\<open>s.replace(old, new)\<close> for a non-empty \<open>old\<close>: every occurrence, left to right,
  without overlap.
\<close>

function py_replace :: "string \<Rightarrow> string \<Rightarrow> string \<Rightarrow> string" where
  "py_replace old new [] = []"
| "py_replace old new (c # cs) =
     (if old \<noteq> [] \<and> take (length old) (c # cs) = old
      then new @ py_replace old new (drop (length old) (c # cs))
      else c # py_replace old new cs)"
  by pat_completeness auto
termination
  by (relation "measure (\<lambda>(old, new, s). length s)") (auto simp: Suc_le_eq)

text \<open>
  \<^verbatim>\<open>Path(filename).suffix\<close> (pathlib, POSIX flavour): the name is the last path
  component that is neither empty nor \<^verbatim>\<open>.\<close>; the suffix starts at the last dot of
  the name, unless that dot is the first or the last character of the name.
\<close>

definition path_name :: "string \<Rightarrow> string" where
  "path_name p =
     (case rev (filter (\<lambda>part. part \<noteq> [] \<and> part \<noteq> ''.'') (py_split CHR ''/'' p)) of
        [] \<Rightarrow> [] | n # _ \<Rightarrow> n)"

text \<open>\<^verbatim>\<open>name.rfind('.')\<close>, as an index from the right end: the length of the text after the last dot.\<close>

definition path_suffix :: "string \<Rightarrow> string" where
  "path_suffix p =
     (let name = path_name p; after = takeWhile (\<lambda>c. c \<noteq> CHR ''.'') (rev name) in
      if length after < length name \<and> 0 < length after \<and> length after + 1 < length name
      then drop (length name - length after - 1) name
      else [])"

section \<open>Configuration (config.py)\<close>

definition FILE_FORMATS :: "(string \<times> string list) list" where
  "FILE_FORMATS =
     [(''json'', [''.json'']),
      (''excel'', [''.xlsx'', ''.xls'']),
      (''pickle'', [''.p'', ''.pkl'', ''.pickle'']),
      (''sqlite'', [''.sqlite'', ''.db''])]"

definition SUPPORTED_EXTENSIONS :: "string list" where
  "SUPPORTED_EXTENSIONS = concat (map snd FILE_FORMATS)"

text \<open>\<^verbatim>\<open>d.get(k, default)\<close> on a dictionary written as an association list.\<close>

definition dict_get :: "('k \<times> 'v) list \<Rightarrow> 'k \<Rightarrow> 'v \<Rightarrow> 'v" where
  "dict_get d k dflt = (case map_of d k of None \<Rightarrow> dflt | Some v \<Rightarrow> v)"

section \<open>pandas tables\<close>

text \<open>
  A DataFrame is a list of row labels and a list of named columns; a column has a dtype.
  A float column holds \<open>None\<close> for NaN; an object column holds strings, or \<open>None\<close> for
  a missing entry. Every column of a table has one entry per row label.
\<close>

datatype column =
    FloatCol "real option list"
  | IntCol "int list"
  | BoolCol "bool list"
  | ObjectCol "string option list"

datatype cell = CFloat real | CInt int | CBool bool | CStr string | Null

record dataframe =
  df_index :: "int list"
  df_columns :: "(string \<times> column) list"

text \<open>\<^verbatim>\<open>len(df)\<close>, \<^verbatim>\<open>df.empty\<close> (no rows or no columns), \<^verbatim>\<open>c in df.columns\<close>, \<^verbatim>\<open>df[c]\<close>.\<close>

definition df_len :: "dataframe \<Rightarrow> nat" where
  "df_len df = length (df_index df)"

definition df_empty :: "dataframe \<Rightarrow> bool" where
  "df_empty df = (df_index df = [] \<or> df_columns df = [])"

definition df_has_column :: "dataframe \<Rightarrow> string \<Rightarrow> bool" where
  "df_has_column df c = (c \<in> set (map fst (df_columns df)))"

definition df_column :: "dataframe \<Rightarrow> string \<Rightarrow> py_exception + column" where
  "df_column df c =
     (case map_of (df_columns df) c of
        None \<Rightarrow> Inl (Exc KeyError c)
      | Some col \<Rightarrow> Inr col)"

fun col_cells :: "column \<Rightarrow> cell list" where
  "col_cells (FloatCol xs) = map (\<lambda>x. case x of None \<Rightarrow> Null | Some r \<Rightarrow> CFloat r) xs"
| "col_cells (IntCol xs) = map CInt xs"
| "col_cells (BoolCol xs) = map CBool xs"
| "col_cells (ObjectCol xs) = map (\<lambda>x. case x of None \<Rightarrow> Null | Some s \<Rightarrow> CStr s) xs"

text \<open>
  The numbers a reduction (\<^verbatim>\<open>sum\<close>, \<^verbatim>\<open>max\<close>, \<^verbatim>\<open>min\<close>) ranges over: NaN entries
  are skipped, booleans count as 0 and 1. A reduction over an object column, followed by
  \<^verbatim>\<open>float(...)\<close>, is modelled as raising.
\<close>

fun col_numbers :: "column \<Rightarrow> py_exception + real list" where
  "col_numbers (FloatCol xs) = Inr (concat (map (\<lambda>x. case x of None \<Rightarrow> [] | Some r \<Rightarrow> [r]) xs))"
| "col_numbers (IntCol xs) = Inr (map of_int xs)"
| "col_numbers (BoolCol xs) = Inr (map (\<lambda>b. if b then 1 else 0) xs)"
| "col_numbers (ObjectCol xs) = Inl (Exc TypeError ''could not convert object column to float'')"

text \<open>\<^verbatim>\<open>float(col.sum())\<close>: the sum over no values is 0.\<close>

definition col_sum :: "column \<Rightarrow> py_exception + real" where
  "col_sum col = ebind (col_numbers col) (\<lambda>vs. Inr (sum_list vs))"

text \<open>\<^verbatim>\<open>float(col.max())\<close> and \<^verbatim>\<open>float(col.min())\<close>: NaN over no values.\<close>

definition col_max :: "column \<Rightarrow> py_exception + pyfloat" where
  "col_max col =
     ebind (col_numbers col) (\<lambda>vs. case vs of [] \<Rightarrow> Inr NaN | v # ws \<Rightarrow> Inr (Fin (fold max ws v)))"

definition col_min :: "column \<Rightarrow> py_exception + pyfloat" where
  "col_min col =
     ebind (col_numbers col) (\<lambda>vs. case vs of [] \<Rightarrow> Inr NaN | v # ws \<Rightarrow> Inr (Fin (fold min ws v)))"

text \<open>\<^verbatim>\<open>col == True\<close>, elementwise.\<close>

fun col_eq_True :: "column \<Rightarrow> bool list" where
  "col_eq_True (FloatCol xs) = map (\<lambda>x. x = Some 1) xs"
| "col_eq_True (IntCol xs) = map (\<lambda>x. x = 1) xs"
| "col_eq_True (BoolCol xs) = xs"
| "col_eq_True (ObjectCol xs) = map (\<lambda>x. False) xs"

text \<open>Boolean-mask selection: the entries at the positions where the mask is true.\<close>

definition mask_select :: "bool list \<Rightarrow> 'a list \<Rightarrow> 'a list" where
  "mask_select sel xs = map snd (filter fst (zip sel xs))"

fun col_select :: "bool list \<Rightarrow> column \<Rightarrow> column" where
  "col_select sel (FloatCol xs) = FloatCol (mask_select sel xs)"
| "col_select sel (IntCol xs) = IntCol (mask_select sel xs)"
| "col_select sel (BoolCol xs) = BoolCol (mask_select sel xs)"
| "col_select sel (ObjectCol xs) = ObjectCol (mask_select sel xs)"

text \<open>\<^verbatim>\<open>df.index.isin(labels)\<close>\<close>

definition index_isin :: "dataframe \<Rightarrow> int list \<Rightarrow> bool list" where
  "index_isin df labels = map (\<lambda>i. i \<in> set labels) (df_index df)"

text \<open>\<^verbatim>\<open>df.loc[mask, c]\<close>\<close>

definition df_loc :: "dataframe \<Rightarrow> bool list \<Rightarrow> string \<Rightarrow> py_exception + column" where
  "df_loc df sel c = ebind (df_column df c) (\<lambda>col. Inr (col_select sel col))"

text \<open>\<^verbatim>\<open>col.round(4)\<close> on the float columns (\<^verbatim>\<open>select_dtypes\<close>), others unchanged.\<close>

fun col_round4 :: "column \<Rightarrow> column" where
  "col_round4 (FloatCol xs) = FloatCol (map (map_option (\<lambda>r. py_round r 4)) xs)"
| "col_round4 col = col"

definition cell_at :: "column \<Rightarrow> nat \<Rightarrow> cell" where
  "cell_at col i = (if i < length (col_cells col) then col_cells col ! i else Null)"

text \<open>\<^verbatim>\<open>df.to_dict(orient="records")\<close>: one dictionary per row.\<close>

definition df_records :: "dataframe \<Rightarrow> (string \<times> cell) list list" where
  "df_records df = map (\<lambda>i. map (\<lambda>(c, col). (c, cell_at col i)) (df_columns df)) [0 ..< df_len df]"

section \<open>The network (pandapowerNet)\<close>

text \<open>
  A pandapowerNet is a dictionary with attribute access: its element tables
  (\<^verbatim>\<open>bus\<close>, \<^verbatim>\<open>gen\<close>, ...) and result tables (\<^verbatim>\<open>res_bus\<close>, ...) by name, the
  convergence flag, and the solver's internal case \<^verbatim>\<open>_ppc\<close>.
\<close>

record pandapowerNet =
  net_tables :: "string \<rightharpoonup> dataframe"
  net_converged :: bool
  net_ppc :: "(string \<rightharpoonup> int) option"

text \<open>
  \<^verbatim>\<open>net.<name>\<close> raises AttributeError for a table the network lacks, with the text
  \<^verbatim>\<open>'pandapowerNet' instance has no attribute '<name>'\<close>;
  \<^verbatim>\<open>hasattr(net, name)\<close>.
\<close>

definition py_quoted :: "string \<Rightarrow> string" where
  "py_quoted s = CHR 0x27 # s @ [CHR 0x27]"

definition no_attribute_text :: "string \<Rightarrow> string" where
  "no_attribute_text name =
     py_quoted ''pandapowerNet'' @ '' instance has no attribute '' @ py_quoted name"

definition net_attr :: "pandapowerNet \<Rightarrow> string \<Rightarrow> py_exception + dataframe" where
  "net_attr net name =
     (case net_tables net name of
        None \<Rightarrow> Inl (Exc AttributeError (no_attribute_text name))
      | Some df \<Rightarrow> Inr df)"

definition net_hasattr :: "pandapowerNet \<Rightarrow> string \<Rightarrow> bool" where
  "net_hasattr net name = (net_tables net name \<noteq> None)"

section \<open>Schemas (schemas/powerflow.py)\<close>

record TableData =
  columns :: "string list"
  data :: "(string \<times> cell) list list"
  row_count :: int

record CalculationLog =
  algorithm :: string
  init_method :: string
  tolerance_mva :: real
  max_iteration :: int
  calculation_time_ms :: "real option"
  iterations :: "int option"
  warnings :: "string list"
  slack_p_mw :: "real option"
  slack_q_mvar :: "real option"

record PowerFlowResult =
  converged :: bool
  message :: string
  result_iterations :: "int option"
  calculation_log :: "CalculationLog option"
  res_bus :: "TableData option"
  res_line :: "TableData option"
  res_trafo :: "TableData option"
  res_trafo3w :: "TableData option"
  res_load :: "TableData option"
  res_gen :: "TableData option"
  res_sgen :: "TableData option"
  res_ext_grid :: "TableData option"
  res_shunt :: "TableData option"
  max_loading_percent :: "pyfloat option"
  min_vm_pu :: "pyfloat option"
  max_vm_pu :: "pyfloat option"

text \<open>
  \<^verbatim>\<open>PowerFlowResult(converged=..., message=..., calculation_log=...)\<close>: every field
  that is not given takes its default, \<^verbatim>\<open>None\<close>.
\<close>

definition PowerFlowResult_of :: "bool \<Rightarrow> string \<Rightarrow> CalculationLog option \<Rightarrow> PowerFlowResult" where
  "PowerFlowResult_of c m clog =
     \<lparr>converged = c, message = m, result_iterations = None, calculation_log = clog,
      res_bus = None, res_line = None, res_trafo = None, res_trafo3w = None,
      res_load = None, res_gen = None, res_sgen = None, res_ext_grid = None,
      res_shunt = None, max_loading_percent = None, min_vm_pu = None, max_vm_pu = None\<rparr>"

section \<open>The service (core/powerflow_service.py)\<close>

record PowerFlowService =
  network :: pandapowerNet
  filename :: string
  file_format :: string
  results :: "PowerFlowResult option"

text \<open>\<^verbatim>\<open>PowerFlowService.__init__\<close>\<close>

definition PowerFlowService_init :: "pandapowerNet \<Rightarrow> string \<Rightarrow> string \<Rightarrow> PowerFlowService" where
  "PowerFlowService_init net fname fmt =
     \<lparr>network = net, filename = fname, file_format = fmt, results = None\<rparr>"

definition ALGORITHM_DEFAULT_ITERATIONS :: "(string \<times> int) list" where
  "ALGORITHM_DEFAULT_ITERATIONS =
     [(''nr'', 10), (''iwamoto_nr'', 10), (''bfsw'', 100), (''gs'', 1000),
      (''fdbx'', 30), (''fdxb'', 30)]"

definition DEFAULT_ITERATION_FALLBACK :: int where
  "DEFAULT_ITERATION_FALLBACK = 30"

subsection \<open>detect\_format\<close>

fun detect_format_loop :: "(string \<times> string list) list \<Rightarrow> string \<Rightarrow> string option" where
  "detect_format_loop [] ext = None"
| "detect_format_loop ((format_name, extensions) # rest) ext =
     (if ext \<in> set extensions then Some format_name else detect_format_loop rest ext)"

definition detect_format :: "string \<Rightarrow> string option" where
  "detect_format fname = detect_format_loop FILE_FORMATS (py_lower (path_suffix fname))"

subsection \<open>\_dataframe\_to\_table\_data\<close>

text \<open>
  \<^verbatim>\<open>df.reset_index()\<close> makes the row labels a first column, named \<^verbatim>\<open>index\<close>
  (\<^verbatim>\<open>level_0\<close> when the table already has a column \<^verbatim>\<open>index\<close>), and
  \<^verbatim>\<open>rename(columns={"index": "idx"})\<close> renames it.
\<close>

definition df_reset_index :: "dataframe \<Rightarrow> dataframe" where
  "df_reset_index df =
     \<lparr>df_index = map int [0 ..< df_len df],
      df_columns =
        (if df_has_column df ''index'' then ''level_0'' else ''index'', IntCol (df_index df))
        # df_columns df\<rparr>"

definition df_rename :: "string \<Rightarrow> string \<Rightarrow> dataframe \<Rightarrow> dataframe" where
  "df_rename old new df =
     df\<lparr>df_columns := map (\<lambda>(c, col). (if c = old then new else c, col)) (df_columns df)\<rparr>"

text \<open>
  \<^verbatim>\<open>series.reindex(labels)\<close>: when the labels asked for are the series' own labels,
  the series as it is; otherwise the entry stored under each label, missing where the
  series has no such label, and pandas refuses to reindex a series whose own labels
  repeat.
\<close>

definition series_reindex :: "int list \<Rightarrow> cell list \<Rightarrow> cell list \<Rightarrow> py_exception + cell list" where
  "series_reindex idx vals labels =
     (if map CInt idx = labels then Inr vals
      else if \<not> distinct idx
      then Inl (Exc ValueError ''cannot reindex on an axis with duplicate labels'')
      else Inr (map (\<lambda>l. case l of
                           CInt i \<Rightarrow> (case map_of (zip idx vals) i of None \<Rightarrow> Null | Some v \<Rightarrow> v)
                         | _ \<Rightarrow> Null) labels))"

text \<open>
  \<^verbatim>\<open>str(x)\<close>: a string is itself; how a number or a boolean prints is left to the
  parameter \<open>render\<close>.
\<close>

definition py_str :: "(cell \<Rightarrow> string) \<Rightarrow> cell \<Rightarrow> string" where
  "py_str render x = (case x of CStr s \<Rightarrow> s | _ \<Rightarrow> render x)"

text \<open>\<^verbatim>\<open>lambda x: str(x).strip() if pd.notna(x) and str(x).strip() else "-"\<close>\<close>

definition device_name :: "(cell \<Rightarrow> string) \<Rightarrow> cell \<Rightarrow> string" where
  "device_name render x =
     (if x \<noteq> Null \<and> py_strip (py_str render x) \<noteq> [] then py_strip (py_str render x) else ''-'')"

text \<open>\<^verbatim>\<open>df.insert(1, c, values)\<close>: refused when the table has a column \<open>c\<close> already.\<close>

definition df_insert1 :: "string \<Rightarrow> column \<Rightarrow> dataframe \<Rightarrow> py_exception + dataframe" where
  "df_insert1 c col df =
     (if df_has_column df c
      then Inl (Exc ValueError (''cannot insert '' @ c @ '', already exists''))
      else Inr (df\<lparr>df_columns := take 1 (df_columns df) @ [(c, col)] @ drop 1 (df_columns df)\<rparr>))"

text \<open>
  \<^verbatim>\<open>df_reset["idx"]\<close> as the labels of the reindexing: the one column of that name.
  When the result table has a column \<^verbatim>\<open>idx\<close> of its own, the reset table has two
  columns of that name, the selection is a frame and not a series, and
  \<^verbatim>\<open>reindex\<close> refuses it with a \<^verbatim>\<open>ValueError\<close>.
\<close>

definition idx_labels :: "dataframe \<Rightarrow> py_exception + column" where
  "idx_labels df_reset =
     (case filter (\<lambda>(c, col). c = ''idx'') (df_columns df_reset) of
        [] \<Rightarrow> Inl (Exc KeyError ''idx'')
      | [(c, col)] \<Rightarrow> Inr col
      | _ \<Rightarrow> Inl (Exc ValueError ''Index data must be 1-dimensional''))"

text \<open>
  The table argument is \<open>None\<close> for \<^verbatim>\<open>df is None\<close>. Every attribute of the network
  that the model holds is a DataFrame, so the \<^verbatim>\<open>isinstance\<close> test on the element
  table is true.
\<close>

definition dataframe_to_table_data ::
  "(cell \<Rightarrow> string) \<Rightarrow> pandapowerNet \<Rightarrow> dataframe option \<Rightarrow> string \<Rightarrow> string option
     \<Rightarrow> py_exception + TableData option" where
  "dataframe_to_table_data render net df_opt table_name element_type_opt =
     (case df_opt of
        None \<Rightarrow> Inr None
      | Some df \<Rightarrow>
          if df_empty df then Inr None
          else
            let df_reset = df_rename ''index'' ''idx'' (df_reset_index df);
                element_type =
                  (case element_type_opt of
                     None \<Rightarrow> py_replace ''res_'' [] table_name
                   | Some t \<Rightarrow> t)
            in ebind
                 (if net_hasattr net element_type then
                    ebind (net_attr net element_type) (\<lambda>element_table.
                      if df_has_column element_table ''name'' then
                        ebind (df_column element_table ''name'') (\<lambda>name_col.
                        ebind (idx_labels df_reset) (\<lambda>idx_col.
                        ebind (series_reindex (df_index element_table) (col_cells name_col)
                                 (col_cells idx_col)) (\<lambda>name_series.
                        df_insert1 ''name''
                          (ObjectCol (map (\<lambda>x. Some (device_name render x)) name_series))
                          df_reset)))
                      else Inr df_reset)
                  else Inr df_reset)
                 (\<lambda>df_named.
                    let df_rounded =
                          df_named\<lparr>df_columns :=
                            map (\<lambda>(c, col). (c, col_round4 col)) (df_columns df_named)\<rparr>;
                        recs = df_records df_rounded
                    in Inr (Some \<lparr>columns = map fst (df_columns df_rounded),
                                   data = recs,
                                   row_count = int (length recs)\<rparr>)))"

subsection \<open>\_extract\_results\<close>

text \<open>\<^verbatim>\<open>net.<name> if hasattr(net, "<name>") else None\<close>\<close>

definition net_attr_or_None :: "pandapowerNet \<Rightarrow> string \<Rightarrow> dataframe option" where
  "net_attr_or_None net name = (if net_hasattr net name then net_tables net name else None)"

text \<open>\<^verbatim>\<open>max_loading or 0\<close>\<close>

definition float_or_zero :: "pyfloat option \<Rightarrow> pyfloat" where
  "float_or_zero x = (case x of None \<Rightarrow> Fin 0 | Some v \<Rightarrow> if float_truthy (Some v) then v else Fin 0)"

definition summary_max_loading :: "pandapowerNet \<Rightarrow> py_exception + pyfloat option" where
  "summary_max_loading net =
     ebind (net_attr net ''res_line'') (\<lambda>net_res_line.
     ebind (if \<not> df_empty net_res_line \<and> df_has_column net_res_line ''loading_percent''
            then ebind (ebind (df_column net_res_line ''loading_percent'') col_max)
                   (\<lambda>m. Inr (Some m))
            else Inr None) (\<lambda>max_loading.
     ebind (net_attr net ''res_trafo'') (\<lambda>net_res_trafo.
       if \<not> df_empty net_res_trafo \<and> df_has_column net_res_trafo ''loading_percent''
       then ebind (ebind (df_column net_res_trafo ''loading_percent'') col_max)
              (\<lambda>trafo_max. Inr (Some (py_max2 (float_or_zero max_loading) trafo_max)))
       else Inr max_loading)))"

definition summary_vm :: "pandapowerNet \<Rightarrow> py_exception + (pyfloat option \<times> pyfloat option)" where
  "summary_vm net =
     ebind (net_attr net ''res_bus'') (\<lambda>net_res_bus.
       if \<not> df_empty net_res_bus \<and> df_has_column net_res_bus ''vm_pu''
       then ebind (ebind (df_column net_res_bus ''vm_pu'') col_min) (\<lambda>min_vm.
            ebind (ebind (df_column net_res_bus ''vm_pu'') col_max) (\<lambda>max_vm.
            Inr (Some min_vm, Some max_vm)))
       else Inr (None, None))"

text \<open>A result table read as \<^verbatim>\<open>net.res_x\<close>: the attribute must exist.\<close>

definition extract_table :: "(cell \<Rightarrow> string) \<Rightarrow> pandapowerNet \<Rightarrow> string \<Rightarrow> py_exception + TableData option" where
  "extract_table render net table_name =
     ebind (net_attr net table_name) (\<lambda>df.
       dataframe_to_table_data render net (Some df) table_name None)"

text \<open>A result table read behind \<^verbatim>\<open>hasattr\<close>.\<close>

definition extract_optional_table ::
  "(cell \<Rightarrow> string) \<Rightarrow> pandapowerNet \<Rightarrow> string \<Rightarrow> py_exception + TableData option" where
  "extract_optional_table render net table_name =
     dataframe_to_table_data render net (net_attr_or_None net table_name) table_name None"

definition extract_results :: "(cell \<Rightarrow> string) \<Rightarrow> pandapowerNet \<Rightarrow> py_exception + PowerFlowResult" where
  "extract_results render net =
     ebind (extract_table render net ''res_bus'') (\<lambda>t_bus.
     ebind (extract_table render net ''res_line'') (\<lambda>t_line.
     ebind (extract_table render net ''res_trafo'') (\<lambda>t_trafo.
     ebind (extract_optional_table render net ''res_trafo3w'') (\<lambda>t_trafo3w.
     ebind (extract_table render net ''res_load'') (\<lambda>t_load.
     ebind (extract_table render net ''res_gen'') (\<lambda>t_gen.
     ebind (extract_optional_table render net ''res_sgen'') (\<lambda>t_sgen.
     ebind (extract_table render net ''res_ext_grid'') (\<lambda>t_ext_grid.
     ebind (extract_optional_table render net ''res_shunt'') (\<lambda>t_shunt.
     ebind (summary_max_loading net) (\<lambda>max_loading.
     ebind (summary_vm net) (\<lambda>(min_vm, max_vm).
     Inr \<lparr>converged = True, message = [], result_iterations = None, calculation_log = None,
          res_bus = t_bus, res_line = t_line, res_trafo = t_trafo, res_trafo3w = t_trafo3w,
          res_load = t_load, res_gen = t_gen, res_sgen = t_sgen, res_ext_grid = t_ext_grid,
          res_shunt = t_shunt, max_loading_percent = max_loading,
          min_vm_pu = min_vm, max_vm_pu = max_vm\<rparr>)))))))))))"

subsection \<open>run\_powerflow\<close>

text \<open>
  What the method takes from outside the repository: the solver \<^verbatim>\<open>pp.runpp\<close>, which
  mutates the network and either returns, having emitted a list of warnings, or raises;
  the printing of scalars; and the three readings of \<^verbatim>\<open>time.perf_counter()\<close>
  (before the solver call, after it, and in the exception handler).
\<close>

record runpp_args =
  arg_algorithm :: string
  arg_max_iteration :: int
  arg_enforce_q_lims :: bool
  arg_calculate_voltage_angles :: bool
  arg_init :: string
  arg_tolerance_mva :: real
  arg_numba :: bool

record externals =
  pp_runpp :: "pandapowerNet \<Rightarrow> runpp_args \<Rightarrow> pandapowerNet \<times> (py_exception + string list)"
  render_scalar :: "cell \<Rightarrow> string"
  perf_counter_start :: real
  perf_counter_done :: real
  perf_counter_except :: real

text \<open>The resolution of the iteration cap (the first statement of the method).\<close>

definition resolve_max_iteration :: "string \<Rightarrow> int option \<Rightarrow> int" where
  "resolve_max_iteration algo max_iter =
     (case max_iter of
        None \<Rightarrow> dict_get ALGORITHM_DEFAULT_ITERATIONS algo DEFAULT_ITERATION_FALLBACK
      | Some m \<Rightarrow> m)"

text \<open>
  Slack power, step 1: the external grids. The accumulator is
  \<open>(slack_p_mw, slack_q_mvar, has_slack)\<close>.
\<close>

definition slack_ext_grid ::
  "pandapowerNet \<Rightarrow> real \<times> real \<times> bool \<Rightarrow> py_exception + real \<times> real \<times> bool" where
  "slack_ext_grid net acc =
     (case acc of (slack_p, slack_q, has_slack) \<Rightarrow>
        ebind (net_attr net ''res_ext_grid'') (\<lambda>net_res_ext_grid.
          if \<not> df_empty net_res_ext_grid then
            ebind (if df_has_column net_res_ext_grid ''p_mw''
                   then ebind (ebind (df_column net_res_ext_grid ''p_mw'') col_sum)
                          (\<lambda>s. Inr (slack_p + s, True))
                   else Inr (slack_p, has_slack)) (\<lambda>(slack_p', has_slack').
            ebind (if df_has_column net_res_ext_grid ''q_mvar''
                   then ebind (ebind (df_column net_res_ext_grid ''q_mvar'') col_sum)
                          (\<lambda>s. Inr (slack_q + s))
                   else Inr slack_q) (\<lambda>slack_q'.
            Inr (slack_p', slack_q', has_slack')))
          else Inr (slack_p, slack_q, has_slack)))"

text \<open>Slack power, step 2: the generators whose \<^verbatim>\<open>slack\<close> entry equals \<^verbatim>\<open>True\<close>.\<close>

definition slack_gen ::
  "pandapowerNet \<Rightarrow> real \<times> real \<times> bool \<Rightarrow> py_exception + real \<times> real \<times> bool" where
  "slack_gen net acc =
     (case acc of (slack_p, slack_q, has_slack) \<Rightarrow>
        ebind (net_attr net ''gen'') (\<lambda>net_gen.
          if \<not> df_empty net_gen \<and> df_has_column net_gen ''slack'' then
            ebind (df_column net_gen ''slack'') (\<lambda>slack_col.
              let slack_gen_mask = col_eq_True slack_col in
              if True \<in> set slack_gen_mask then
                ebind (net_attr net ''res_gen'') (\<lambda>net_res_gen.
                  if \<not> df_empty net_res_gen then
                    let slack_gen_indices = mask_select slack_gen_mask (df_index net_gen);
                        sel = index_isin net_res_gen slack_gen_indices
                    in
                    ebind (if df_has_column net_res_gen ''p_mw''
                           then ebind (ebind (df_loc net_res_gen sel ''p_mw'') col_sum)
                                  (\<lambda>s. Inr (slack_p + s, True))
                           else Inr (slack_p, has_slack)) (\<lambda>(slack_p', has_slack').
                    ebind (if df_has_column net_res_gen ''q_mvar''
                           then ebind (ebind (df_loc net_res_gen sel ''q_mvar'') col_sum)
                                  (\<lambda>s. Inr (slack_q + s))
                           else Inr slack_q) (\<lambda>slack_q'.
                    Inr (slack_p', slack_q', has_slack')))
                  else Inr (slack_p, slack_q, has_slack))
              else Inr (slack_p, slack_q, has_slack))
          else Inr (slack_p, slack_q, has_slack)))"

definition slack_power :: "pandapowerNet \<Rightarrow> bool \<Rightarrow> py_exception + real \<times> real \<times> bool" where
  "slack_power net conv =
     (if conv then ebind (slack_ext_grid net (0, 0, False)) (slack_gen net)
      else Inr (0, 0, False))"

text \<open>\<^verbatim>\<open>self.network._ppc.get("iterations")\<close>, when the network has a \<^verbatim>\<open>_ppc\<close>.\<close>

definition actual_iterations_of :: "pandapowerNet \<Rightarrow> int option" where
  "actual_iterations_of net = (case net_ppc net of None \<Rightarrow> None | Some ppc \<Rightarrow> ppc ''iterations'')"

text \<open>The keyword arguments of the call \<^verbatim>\<open>pp.runpp(self.network, ..., numba=True)\<close>.\<close>

definition run_args :: "string \<Rightarrow> int \<Rightarrow> bool \<Rightarrow> bool \<Rightarrow> string \<Rightarrow> real \<Rightarrow> runpp_args" where
  "run_args algo resolved_max_iteration enforce_q_lims calculate_voltage_angles init tol =
     \<lparr>arg_algorithm = algo, arg_max_iteration = resolved_max_iteration,
      arg_enforce_q_lims = enforce_q_lims,
      arg_calculate_voltage_angles = calculate_voltage_angles,
      arg_init = init, arg_tolerance_mva = tol, arg_numba = True\<rparr>"

text \<open>
  The calculation log of a run that the solver completed: the slack fields are rounded,
  or \<^verbatim>\<open>None\<close> when no slack element was found.
\<close>

definition calculation_log_of ::
  "externals \<Rightarrow> string \<Rightarrow> string \<Rightarrow> real \<Rightarrow> int \<Rightarrow> int option \<Rightarrow> string list
     \<Rightarrow> real \<times> real \<times> bool \<Rightarrow> CalculationLog" where
  "calculation_log_of ext algo init tol resolved_max_iteration actual_iterations
       captured_warnings slack =
     (case slack of (slack_p, slack_q, has_slack) \<Rightarrow>
        let calc_time_ms = (perf_counter_done ext - perf_counter_start ext) * 1000 in
        \<lparr>algorithm = algo, init_method = init, tolerance_mva = tol,
         max_iteration = resolved_max_iteration,
         calculation_time_ms = Some (py_round calc_time_ms 2),
         iterations = actual_iterations,
         warnings = captured_warnings,
         slack_p_mw = (if has_slack then Some (py_round slack_p 4) else None),
         slack_q_mvar = (if has_slack then Some (py_round slack_q 4) else None)\<rparr>)"

text \<open>
  The body of the \<^verbatim>\<open>try\<close> block. It returns the network as the solver left it, and
  either the exception that ended the block or the result the block stored in
  \<^verbatim>\<open>self._results\<close>.
\<close>

definition run_powerflow_try ::
  "externals \<Rightarrow> PowerFlowService \<Rightarrow> string \<Rightarrow> int \<Rightarrow> bool \<Rightarrow> bool \<Rightarrow> string \<Rightarrow> real
     \<Rightarrow> pandapowerNet \<times> (py_exception + PowerFlowResult)" where
  "run_powerflow_try ext self algo resolved_max_iteration enforce_q_lims
       calculate_voltage_angles init tol =
     (case pp_runpp ext (network self)
             (run_args algo resolved_max_iteration enforce_q_lims
                calculate_voltage_angles init tol) of
        (net, outcome) \<Rightarrow>
          (net,
           ebind outcome (\<lambda>captured_warnings.
             let conv = net_converged net;
                 actual_iterations = actual_iterations_of net
             in ebind (slack_power net conv) (\<lambda>slack.
                  let calc_log =
                        calculation_log_of ext algo init tol resolved_max_iteration
                          actual_iterations captured_warnings slack
                  in if conv then
                       ebind (extract_results (render_scalar ext) net) (\<lambda>r.
                         Inr (r\<lparr>message := ''Power flow converged successfully'',
                                calculation_log := Some calc_log\<rparr>))
                     else
                       Inr (PowerFlowResult_of False ''Power flow did not converge''
                              (Some (calc_log\<lparr>warnings :=
                                 warnings calc_log @ [''Power flow did not converge'']\<rparr>)))))))"

text \<open>The result that the \<^verbatim>\<open>except Exception\<close> handler builds from the exception.\<close>

definition failure_result ::
  "externals \<Rightarrow> string \<Rightarrow> int \<Rightarrow> string \<Rightarrow> real \<Rightarrow> py_exception \<Rightarrow> PowerFlowResult" where
  "failure_result ext algo resolved_max_iteration init tol e =
     (let calc_time_ms = (perf_counter_except ext - perf_counter_start ext) * 1000 in
      PowerFlowResult_of False (''Power flow calculation failed: '' @ exc_str e)
        (Some \<lparr>algorithm = algo, init_method = init, tolerance_mva = tol,
               max_iteration = resolved_max_iteration,
               calculation_time_ms = Some (py_round calc_time_ms 2),
               iterations = None,
               warnings = [exc_str e],
               slack_p_mw = None, slack_q_mvar = None\<rparr>))"

text \<open>
  The method: it returns the service with the mutated network and the cached result,
  and the result itself.
\<close>

definition run_powerflow ::
  "externals \<Rightarrow> PowerFlowService \<Rightarrow> string \<Rightarrow> int option \<Rightarrow> bool \<Rightarrow> bool \<Rightarrow> string \<Rightarrow> real
     \<Rightarrow> PowerFlowService \<times> PowerFlowResult" where
  "run_powerflow ext self algo max_iter enforce_q_lims calculate_voltage_angles init tol =
     (let resolved_max_iteration = resolve_max_iteration algo max_iter in
      case run_powerflow_try ext self algo resolved_max_iteration enforce_q_lims
             calculate_voltage_angles init tol of
        (net, outcome) \<Rightarrow>
          let r = (case outcome of
                     Inr r \<Rightarrow> r
                   | Inl e \<Rightarrow> failure_result ext algo resolved_max_iteration init tol e)
          in (self\<lparr>network := net, results := Some r\<rparr>, r))"

subsection \<open>load\_network\<close>

text \<open>
  The file system is a map from paths to file contents. What the method takes from outside
  the repository: the four readers of pandapower, which read the file at a path and either
  return an object or raise, and the name that \<^verbatim>\<open>tempfile.NamedTemporaryFile\<close>
  chooses for a suffix. The readers leave the file system as it is, and unlinking the
  scratch file, which nothing has removed, does not fail.

  An exception \<open>Exc ValueError m\<close> stands for an instance of \<^verbatim>\<open>ValueError\<close> or
  of one of its subclasses, which is what \<^verbatim>\<open>isinstance(e, ValueError)\<close> tests.
\<close>

type_synonym bytes = "char list"

type_synonym filesystem = "string \<rightharpoonup> bytes"

datatype py_object = PandapowerNet pandapowerNet | OtherObject

record load_externals =
  pp_from_json :: "filesystem \<Rightarrow> string \<Rightarrow> py_exception + py_object"
  pp_from_excel :: "filesystem \<Rightarrow> string \<Rightarrow> py_exception + py_object"
  pp_from_pickle :: "filesystem \<Rightarrow> string \<Rightarrow> py_exception + py_object"
  pp_from_sqlite :: "filesystem \<Rightarrow> string \<Rightarrow> py_exception + py_object"
  temp_name :: "filesystem \<Rightarrow> string \<Rightarrow> string"

text \<open>The chain \<^verbatim>\<open>if file_format == "json": ... else: raise ValueError(...)\<close>.\<close>

definition deserialize ::
  "load_externals \<Rightarrow> string \<Rightarrow> filesystem \<Rightarrow> string \<Rightarrow> py_exception + py_object" where
  "deserialize ld fmt fs tmp_path =
     (if fmt = ''json'' then pp_from_json ld fs tmp_path
      else if fmt = ''excel'' then pp_from_excel ld fs tmp_path
      else if fmt = ''pickle'' then pp_from_pickle ld fs tmp_path
      else if fmt = ''sqlite'' then pp_from_sqlite ld fs tmp_path
      else Inl (Exc ValueError (''Unknown format: '' @ fmt)))"

text \<open>
  The body of the \<^verbatim>\<open>try\<close> block. The log record of the success path reads
  \<^verbatim>\<open>len(network.bus)\<close> and \<^verbatim>\<open>len(network.line)\<close>.
\<close>

definition load_network_try ::
  "load_externals \<Rightarrow> string \<Rightarrow> string \<Rightarrow> filesystem \<Rightarrow> string
     \<Rightarrow> py_exception + PowerFlowService" where
  "load_network_try ld fmt fname fs tmp_path =
     ebind (deserialize ld fmt fs tmp_path) (\<lambda>obj.
       case obj of
         OtherObject \<Rightarrow> Inl (Exc ValueError ''File does not contain a valid pandapower network'')
       | PandapowerNet net \<Rightarrow>
           ebind (net_attr net ''bus'') (\<lambda>net_bus.
             if df_len net_bus = 0
             then Inl (Exc ValueError ''Network must contain at least one bus'')
             else ebind (net_attr net ''bus'') (\<lambda>net_bus'.
                  ebind (net_attr net ''line'') (\<lambda>net_line.
                  Inr (PowerFlowService_init net fname fmt)))))"

text \<open>The handler: a \<^verbatim>\<open>ValueError\<close> is raised again, every other exception is wrapped.\<close>

definition load_network_except :: "py_exception \<Rightarrow> py_exception" where
  "load_network_except e =
     (if is_ValueError e then e
      else Exc ValueError (''Failed to load network: '' @ exc_str e))"

text \<open>
  The method when the \<^verbatim>\<open>with\<close> block that creates and writes the scratch file
  completes: the file system it leaves, and the service or the exception. The scratch
  file is written before the \<^verbatim>\<open>try\<close> statement and unlinked in its
  \<^verbatim>\<open>finally\<close> clause.
\<close>

definition tmp_path_of :: "load_externals \<Rightarrow> filesystem \<Rightarrow> string \<Rightarrow> string" where
  "tmp_path_of ld fs fname = temp_name ld fs (py_lower (path_suffix fname))"

definition load_network ::
  "load_externals \<Rightarrow> filesystem \<Rightarrow> bytes \<Rightarrow> string
     \<Rightarrow> filesystem \<times> (py_exception + PowerFlowService)" where
  "load_network ld fs content fname =
     (case detect_format fname of
        None \<Rightarrow>
          (fs, Inl (Exc ValueError (''Unsupported file format. Supported formats: ''
                      @ py_join '', '' SUPPORTED_EXTENSIONS)))
      | Some fmt \<Rightarrow>
          let tmp_path = tmp_path_of ld fs fname;
              fs_written = fs(tmp_path \<mapsto> content);
              outcome =
                (case load_network_try ld fmt fname fs_written tmp_path of
                   Inr service \<Rightarrow> Inr service
                 | Inl e \<Rightarrow> Inl (load_network_except e));
              fs_unlinked = fs_written(tmp_path := None)
          in (fs_unlinked, outcome))"

text \<open>
  The method for either outcome of the \<^verbatim>\<open>with\<close> block
  \<^verbatim>\<open>with tempfile.NamedTemporaryFile(suffix=ext, delete=False) as tmp_file\<close>, which
  stands before the \<^verbatim>\<open>try\<close> statement. The block creates the file and writes
  the content; the write, or the flush when the block closes the file, either completes
  or raises (a full disk, a quota), leaving in the file the bytes that have reached it.
  An exception of the block leaves the method at once: the \<^verbatim>\<open>try\<close> statement
  is not entered, so neither its handler nor its \<^verbatim>\<open>finally\<close> clause runs.
\<close>

datatype scratch_write = WriteCompleted | WriteRaised py_exception bytes

definition load_network_io ::
  "scratch_write \<Rightarrow> load_externals \<Rightarrow> filesystem \<Rightarrow> bytes \<Rightarrow> string
     \<Rightarrow> filesystem \<times> (py_exception + PowerFlowService)" where
  "load_network_io w ld fs content fname =
     (case detect_format fname of
        None \<Rightarrow> load_network ld fs content fname
      | Some fmt \<Rightarrow>
          (case w of
             WriteCompleted \<Rightarrow> load_network ld fs content fname
           | WriteRaised e reached \<Rightarrow> (fs(tmp_path_of ld fs fname \<mapsto> reached), Inl e)))"

subsection \<open>export\_results\_to\_excel\<close>

text \<open>
  The workbook is the list of its sheets in the order they are written. A table sheet
  holds the records of the table; the Summary sheet holds its rows, a metric and a cell
  that is a text or a number.
\<close>

datatype xl_cell = XText string | XNumber pyfloat

datatype sheet = TableSheet "(string \<times> cell) list list" | SummarySheet "(string \<times> xl_cell) list"

type_synonym workbook = "(string \<times> sheet) list"

text \<open>\<^verbatim>\<open>x or "N/A"\<close>: the left operand when it is truthy, else the text.\<close>

definition or_NA :: "pyfloat option \<Rightarrow> xl_cell" where
  "or_NA x =
     (case x of
        None \<Rightarrow> XText ''N/A''
      | Some v \<Rightarrow> if float_truthy (Some v) then XNumber v else XText ''N/A'')"

definition result_tables :: "PowerFlowResult \<Rightarrow> (string \<times> TableData option) list" where
  "result_tables r =
     [(''res_bus'', res_bus r), (''res_line'', res_line r), (''res_trafo'', res_trafo r),
      (''res_trafo3w'', res_trafo3w r), (''res_load'', res_load r), (''res_gen'', res_gen r),
      (''res_sgen'', res_sgen r), (''res_ext_grid'', res_ext_grid r),
      (''res_shunt'', res_shunt r)]"

text \<open>The loop over the result tables: a sheet for a table that is there and has rows.\<close>

fun table_sheets :: "(string \<times> TableData option) list \<Rightarrow> workbook" where
  "table_sheets [] = []"
| "table_sheets ((sheet_name, table_data) # rest) =
     (case table_data of
        None \<Rightarrow> table_sheets rest
      | Some t \<Rightarrow>
          if 0 < row_count t then (sheet_name, TableSheet (data t)) # table_sheets rest
          else table_sheets rest)"

definition summary_data :: "PowerFlowResult \<Rightarrow> (string \<times> xl_cell) list" where
  "summary_data r =
     [(''Converged'', XText (if converged r then ''Yes'' else ''No'')),
      (''Max Loading (%)'', or_NA (max_loading_percent r)),
      (''Min Voltage (p.u.)'', or_NA (min_vm_pu r)),
      (''Max Voltage (p.u.)'', or_NA (max_vm_pu r))]"

definition export_results_to_excel :: "PowerFlowService \<Rightarrow> py_exception + workbook" where
  "export_results_to_excel self =
     (case results self of
        None \<Rightarrow> Inl (Exc ValueError ''No converged results available to export'')
      | Some r \<Rightarrow>
          if \<not> converged r
          then Inl (Exc ValueError ''No converged results available to export'')
          else Inr (table_sheets (result_tables r)
                    @ [(''Summary'', SummarySheet (summary_data r))]))"

section \<open>The session store (core/powerflow\_service.py)\<close>

text \<open>
  The session directory maps a path to a file. A file holds a complete pickle of a
  session dictionary, or the incomplete stream of a file that has been opened with mode
  \<^verbatim>\<open>wb\<close>, which truncates it, and whose pickle has not been written out yet;
  \<^verbatim>\<open>pickle.load\<close> raises on an incomplete stream. A complete pickle loads to the
  dictionary that was dumped.
\<close>

record session_dict =
  sd_network :: pandapowerNet
  sd_filename :: string
  sd_file_format :: string
  sd_results :: "PowerFlowResult option"

datatype session_file = Pickled session_dict | Incomplete

type_synonym session_dir = "string \<rightharpoonup> session_file"

text \<open>\<^verbatim>\<open>SESSION_DIR / f"{session_id}.pkl"\<close>, as the name inside the directory.\<close>

definition get_session_path :: "string \<Rightarrow> string" where
  "get_session_path session_id = session_id @ ''.pkl''"

definition session_dict_of :: "PowerFlowService \<Rightarrow> session_dict" where
  "session_dict_of service =
     \<lparr>sd_network = network service, sd_filename = filename service,
      sd_file_format = file_format service, sd_results = results service\<rparr>"

text \<open>
  The two steps of \<^verbatim>\<open>with open(session_path, "wb") as f: pickle.dump(session_data, f)\<close>
  on the file at the session's own path: the open, and the dump up to the close.
\<close>

definition open_wb :: "string \<Rightarrow> session_dir \<Rightarrow> session_dir" where
  "open_wb session_path dir = dir(session_path \<mapsto> Incomplete)"

definition pickle_dump :: "session_dict \<Rightarrow> string \<Rightarrow> session_dir \<Rightarrow> session_dir" where
  "pickle_dump session_data session_path dir = dir(session_path \<mapsto> Pickled session_data)"

text \<open>
  \<^verbatim>\<open>create_session\<close>; the identifier that \<^verbatim>\<open>uuid.uuid4()\<close> returns is the
  parameter \<open>session_id\<close>.
\<close>

definition create_session :: "string \<Rightarrow> session_dir \<Rightarrow> PowerFlowService \<Rightarrow> session_dir \<times> string" where
  "create_session session_id dir service =
     (let session_path = get_session_path session_id;
          session_data = session_dict_of service
      in (pickle_dump session_data session_path (open_wb session_path dir), session_id))"

text \<open>
  \<^verbatim>\<open>get_session\<close>: \<^verbatim>\<open>None\<close> for a path that does not exist, and for every
  exception while the file is loaded.
\<close>

definition get_session :: "session_dir \<Rightarrow> string \<Rightarrow> PowerFlowService option" where
  "get_session dir session_id =
     (case dir (get_session_path session_id) of
        None \<Rightarrow> None
      | Some Incomplete \<Rightarrow> None
      | Some (Pickled session_data) \<Rightarrow>
          Some ((PowerFlowService_init (sd_network session_data) (sd_filename session_data)
                   (sd_file_format session_data))
                \<lparr>results := sd_results session_data\<rparr>))"


section \<open>The iteration cap as the specification words it\<close>

text \<open>
  The specification's resolver: an explicit cap verbatim; otherwise the table
  Newton-Raphson 10, backward/forward sweep 100, Gauss-Seidel 1000, the fast-decoupled
  variants 30; every other algorithm 30.
\<close>

definition spec_resolve :: "string \<Rightarrow> int option \<Rightarrow> int" where
  "spec_resolve algo explicit =
     (case explicit of
        Some m \<Rightarrow> m
      | None \<Rightarrow>
          if algo = ''nr'' then 10
          else if algo = ''bfsw'' then 100
          else if algo = ''gs'' then 1000
          else if algo = ''fdbx'' \<or> algo = ''fdxb'' then 30
          else 30)"

section \<open>The slack power as the specification words it\<close>











section \<open>Example inputs\<close>

definition example_empty_net :: pandapowerNet where
  "example_empty_net = \<lparr>net_tables = Map.empty, net_converged = False, net_ppc = None\<rparr>"

definition example_service :: PowerFlowService where
  "example_service = PowerFlowService_init example_empty_net ''case4.json'' ''json''"

definition example_error :: py_exception where
  "example_error = Exc (OtherException ''UserWarning'') ''no external grid''"

text \<open>A solver that raises.\<close>

definition raising_externals :: externals where
  "raising_externals =
     \<lparr>pp_runpp = (\<lambda>net args. (net, Inl example_error)),
      render_scalar = (\<lambda>c. []),
      perf_counter_start = 0, perf_counter_done = 1, perf_counter_except = 1\<rparr>"

text \<open>A solver that returns without converging, having emitted one warning.\<close>

definition diverging_externals :: externals where
  "diverging_externals =
     \<lparr>pp_runpp = (\<lambda>net args. (net\<lparr>net_converged := False\<rparr>, Inr [''slow progress''])),
      render_scalar = (\<lambda>c. []),
      perf_counter_start = 0, perf_counter_done = 1, perf_counter_except = 1\<rparr>"

definition example_empty_table :: dataframe where
  "example_empty_table = \<lparr>df_index = [], df_columns = []\<rparr>"

text \<open>
  A solver that sets the convergence flag and leaves a network without the result
  table \<^verbatim>\<open>res_bus\<close>.
\<close>

definition half_solved_net :: pandapowerNet where
  "half_solved_net =
     \<lparr>net_tables = [''res_ext_grid'' \<mapsto> example_empty_table, ''gen'' \<mapsto> example_empty_table],
      net_converged = True, net_ppc = None\<rparr>"

definition half_solving_externals :: externals where
  "half_solving_externals =
     \<lparr>pp_runpp = (\<lambda>net args. (half_solved_net, Inr [])),
      render_scalar = (\<lambda>c. []),
      perf_counter_start = 0, perf_counter_done = 1, perf_counter_except = 1\<rparr>"

text \<open>The three runs on these solvers, with the default arguments of the method.\<close>

definition raising_run :: "PowerFlowService \<times> PowerFlowResult" where
  "raising_run =
     run_powerflow raising_externals example_service ''nr'' None False True ''auto'' (1 / 100000000)"

definition diverging_run :: "PowerFlowService \<times> PowerFlowResult" where
  "diverging_run =
     run_powerflow diverging_externals example_service ''nr'' None False True ''auto'' (1 / 100000000)"

definition half_solved_run :: "PowerFlowService \<times> PowerFlowResult" where
  "half_solved_run =
     run_powerflow half_solving_externals example_service ''nr'' None False True ''auto''
       (1 / 100000000)"

text \<open>
  Readers that return a given network when the file they are pointed at exists, readers
  that raise, and a name for the scratch file.
\<close>

definition example_temp_name :: "filesystem \<Rightarrow> string \<Rightarrow> string" where
  "example_temp_name fs suffix = ''/tmp/tmpq1w2e3'' @ suffix"

definition example_reader :: "pandapowerNet \<Rightarrow> filesystem \<Rightarrow> string \<Rightarrow> py_exception + py_object" where
  "example_reader net fs p =
     (case fs p of
        None \<Rightarrow> Inl (Exc (OtherException ''FileNotFoundError'') p)
      | Some b \<Rightarrow> Inr (PandapowerNet net))"

definition reading_externals :: "pandapowerNet \<Rightarrow> load_externals" where
  "reading_externals net =
     \<lparr>pp_from_json = example_reader net, pp_from_excel = example_reader net,
      pp_from_pickle = example_reader net, pp_from_sqlite = example_reader net,
      temp_name = example_temp_name\<rparr>"

definition failing_externals :: load_externals where
  "failing_externals =
     \<lparr>pp_from_json = (\<lambda>fs p. Inl (Exc (OtherException ''UserWarning'') ''not a network'')),
      pp_from_excel = (\<lambda>fs p. Inl (Exc (OtherException ''UserWarning'') ''not a network'')),
      pp_from_pickle = (\<lambda>fs p. Inl (Exc (OtherException ''UserWarning'') ''not a network'')),
      pp_from_sqlite = (\<lambda>fs p. Inl (Exc (OtherException ''UserWarning'') ''not a network'')),
      temp_name = example_temp_name\<rparr>"

definition one_bus_table :: dataframe where
  "one_bus_table =
     \<lparr>df_index = [0],
      df_columns = [(''name'', ObjectCol [Some ''Bus 1'']), (''vn_kv'', FloatCol [Some 20])]\<rparr>"

definition no_bus_table :: dataframe where
  "no_bus_table =
     \<lparr>df_index = [], df_columns = [(''name'', ObjectCol []), (''vn_kv'', FloatCol [])]\<rparr>"

definition one_bus_net :: pandapowerNet where
  "one_bus_net =
     \<lparr>net_tables = [''bus'' \<mapsto> one_bus_table, ''line'' \<mapsto> example_empty_table],
      net_converged = False, net_ppc = None\<rparr>"

definition no_bus_net :: pandapowerNet where
  "no_bus_net =
     \<lparr>net_tables = [''bus'' \<mapsto> no_bus_table, ''line'' \<mapsto> example_empty_table],
      net_converged = False, net_ppc = None\<rparr>"

text \<open>
  A solved network without load: one line, whose loading is 0.0 percent, and no other
  result rows; the solver that returns it, converged; and the run on that solver.
\<close>

definition idle_line_results :: dataframe where
  "idle_line_results = \<lparr>df_index = [0], df_columns = [(''loading_percent'', FloatCol [Some 0])]\<rparr>"

definition idle_net :: pandapowerNet where
  "idle_net =
     \<lparr>net_tables =
        [''gen'' \<mapsto> example_empty_table,
         ''res_bus'' \<mapsto> example_empty_table,
         ''res_line'' \<mapsto> idle_line_results,
         ''res_trafo'' \<mapsto> example_empty_table,
         ''res_load'' \<mapsto> example_empty_table,
         ''res_gen'' \<mapsto> example_empty_table,
         ''res_ext_grid'' \<mapsto> example_empty_table],
      net_converged = True, net_ppc = None\<rparr>"

definition idle_externals :: externals where
  "idle_externals =
     \<lparr>pp_runpp = (\<lambda>net args. (idle_net, Inr [])),
      render_scalar = (\<lambda>c. []),
      perf_counter_start = 0, perf_counter_done = 1, perf_counter_except = 1\<rparr>"

definition idle_run :: "PowerFlowService \<times> PowerFlowResult" where
  "idle_run =
     run_powerflow idle_externals example_service ''nr'' None False True ''auto'' (1 / 100000000)"


















section \<open>The shape of a run\<close>

lemma ebind_Inl [simp]: "ebind (Inl e) f = Inl e"
  by (simp add: ebind_def)

lemma ebind_Inr [simp]: "ebind (Inr v) f = f v"
  by (simp add: ebind_def)

lemma ebind_eq_Inr: "ebind m f = Inr r \<longleftrightarrow> (\<exists>v. m = Inr v \<and> f v = Inr r)"
  by (cases m) simp_all

lemma ebind_eq_Inl: "ebind m f = Inl e \<longleftrightarrow> (m = Inl e \<or> (\<exists>v. m = Inr v \<and> f v = Inl e))"
  by (cases m) simp_all

lemma extract_results_Inr:
  assumes "extract_results render net = Inr r"
  shows "converged r" and "message r = []" and "calculation_log r = None"
  using assms unfolding extract_results_def
  by (auto simp: ebind_eq_Inr split: prod.splits)

lemma run_try_cases:
  assumes "run_powerflow_try ext self algo rmi q va init tol = (net, out)"
  obtains
    (solver_raised) e where
      "pp_runpp ext (network self) (run_args algo rmi q va init tol) = (net, Inl e)" "out = Inl e"
  | (slack_raised) ws e where
      "pp_runpp ext (network self) (run_args algo rmi q va init tol) = (net, Inr ws)"
      "net_converged net" "slack_power net True = Inl e" "out = Inl e"
  | (extract_raised) ws slack e where
      "pp_runpp ext (network self) (run_args algo rmi q va init tol) = (net, Inr ws)"
      "net_converged net" "slack_power net True = Inr slack"
      "extract_results (render_scalar ext) net = Inl e" "out = Inl e"
  | (run_converged) ws slack r0 where
      "pp_runpp ext (network self) (run_args algo rmi q va init tol) = (net, Inr ws)"
      "net_converged net" "slack_power net True = Inr slack"
      "extract_results (render_scalar ext) net = Inr r0"
      "out = Inr (r0\<lparr>message := ''Power flow converged successfully'',
           calculation_log := Some (calculation_log_of ext algo init tol rmi (actual_iterations_of net) ws slack)\<rparr>)"
  | (not_converged) ws where
      "pp_runpp ext (network self) (run_args algo rmi q va init tol) = (net, Inr ws)"
      "\<not> net_converged net"
      "out = Inr (PowerFlowResult_of False ''Power flow did not converge''
            (Some ((calculation_log_of ext algo init tol rmi (actual_iterations_of net) ws (0, 0, False))
               \<lparr>warnings := ws @ [''Power flow did not converge'']\<rparr>)))"
proof -
  obtain net' outcome where run: "pp_runpp ext (network self) (run_args algo rmi q va init tol) = (net', outcome)"
    by (cases "pp_runpp ext (network self) (run_args algo rmi q va init tol)")
  from assms run have net: "net' = net"
    by (simp add: run_powerflow_try_def)
  show thesis
  proof (cases outcome)
    case (Inl e)
    with assms run net show thesis
      by (intro solver_raised[of e]) (auto simp: run_powerflow_try_def)
  next
    case (Inr ws)
    show thesis
    proof (cases "net_converged net")
      case False
      with assms run net Inr show thesis
        by (intro not_converged[of ws])
           (auto simp: run_powerflow_try_def slack_power_def Let_def calculation_log_of_def)
    next
      case True
      show thesis
      proof (cases "slack_power net True")
        case (Inl e)
        with assms run net Inr True show thesis
          by (intro slack_raised[of ws e])
           (auto simp: run_powerflow_try_def Let_def)
      next
        case slack: (Inr slack)
        show thesis
        proof (cases "extract_results (render_scalar ext) net")
          case (Inl e)
          with assms run net Inr True slack show thesis
            by (intro extract_raised[of ws slack e])
              (auto simp: run_powerflow_try_def Let_def)
        next
          case r0: (Inr r0)
          with assms run net Inr True slack show thesis
            by (intro run_converged[of ws slack r0])
              (auto simp: run_powerflow_try_def Let_def)
        qed
      qed
    qed
  qed
qed


lemma failure_result_fields:
  "\<not> converged (failure_result ext algo rmi init tol e)"
  "message (failure_result ext algo rmi init tol e) = ''Power flow calculation failed: '' @ exc_str e"
  "\<exists>clog. calculation_log (failure_result ext algo rmi init tol e) = Some clog
      \<and> warnings clog = [exc_str e] \<and> max_iteration clog = rmi
      \<and> slack_p_mw clog = None \<and> slack_q_mvar clog = None"
  "res_bus (failure_result ext algo rmi init tol e) = None"
  by (simp_all add: failure_result_def PowerFlowResult_of_def Let_def)

lemma run_powerflow_result:
  assumes "run_powerflow ext self algo max_iter q va init tol = (self', r)"
  obtains net out where
    "run_powerflow_try ext self algo (resolve_max_iteration algo max_iter) q va init tol = (net, out)"
    "network self' = net"
    "r = (case out of Inr r0 \<Rightarrow> r0
          | Inl e \<Rightarrow> failure_result ext algo (resolve_max_iteration algo max_iter) init tol e)"
  using assms
  by (cases "run_powerflow_try ext self algo (resolve_max_iteration algo max_iter) q va init tol")
     (auto simp: run_powerflow_def Let_def)

lemma PowerFlowResult_of_fields:
  "converged (PowerFlowResult_of c m clog) = c"
  "message (PowerFlowResult_of c m clog) = m"
  "calculation_log (PowerFlowResult_of c m clog) = clog"
  "res_bus (PowerFlowResult_of c m clog) = None"
  "res_line (PowerFlowResult_of c m clog) = None"
  "res_trafo (PowerFlowResult_of c m clog) = None"
  "res_trafo3w (PowerFlowResult_of c m clog) = None"
  "res_load (PowerFlowResult_of c m clog) = None"
  "res_gen (PowerFlowResult_of c m clog) = None"
  "res_sgen (PowerFlowResult_of c m clog) = None"
  "res_ext_grid (PowerFlowResult_of c m clog) = None"
  "res_shunt (PowerFlowResult_of c m clog) = None"
  by (simp_all add: PowerFlowResult_of_def)

lemma failure_result_of:
  "failure_result ext algo rmi init tol e =
     PowerFlowResult_of False (''Power flow calculation failed: '' @ exc_str e)
       (Some \<lparr>algorithm = algo, init_method = init, tolerance_mva = tol,
               max_iteration = rmi,
               calculation_time_ms =
                 Some (py_round ((perf_counter_except ext - perf_counter_start ext) * 1000) 2),
               iterations = None,
               warnings = [exc_str e],
               slack_p_mw = None, slack_q_mvar = None\<rparr>)"
  by (simp add: failure_result_def Let_def)

lemma resolve_max_iteration_table:
  "resolve_max_iteration algo max_iter =
     (case max_iter of
        Some m \<Rightarrow> m
      | None \<Rightarrow>
          if algo = ''nr'' \<or> algo = ''iwamoto_nr'' then 10
          else if algo = ''bfsw'' then 100
          else if algo = ''gs'' then 1000
          else if algo = ''fdbx'' \<or> algo = ''fdxb'' then 30
          else 30)"
  by (simp add: resolve_max_iteration_def dict_get_def DEFAULT_ITERATION_FALLBACK_def
        ALGORITHM_DEFAULT_ITERATIONS_def split: option.splits)

lemma run_powerflow_log:
  assumes "run_powerflow ext self algo max_iter q va init tol = (self', r)"
  shows "\<exists>clog. calculation_log r = Some clog
           \<and> max_iteration clog = resolve_max_iteration algo max_iter
           \<and> (slack_p_mw clog = None \<longleftrightarrow> slack_q_mvar clog = None)"
proof -
  from assms(1) obtain net out where
    t: "run_powerflow_try ext self algo (resolve_max_iteration algo max_iter) q va init tol = (net, out)"
    and r: "r = (case out of Inr r0 \<Rightarrow> r0
          | Inl e \<Rightarrow> failure_result ext algo (resolve_max_iteration algo max_iter) init tol e)"
    by (rule run_powerflow_result)
  have raised: ?thesis if "out = Inl e" for e
    using that r by (simp add: failure_result_of PowerFlowResult_of_fields)
  from t show ?thesis
  proof (cases rule: run_try_cases)
    case (run_converged ws slack r0)
    with r show ?thesis by (simp add: calculation_log_of_def split: prod.splits)
  next
    case (not_converged ws)
    with r show ?thesis by (simp add: PowerFlowResult_of_fields calculation_log_of_def)
  next
    case (solver_raised e)
    from solver_raised(2) show ?thesis by (rule raised)
  next
    case (slack_raised ws e)
    from slack_raised(4) show ?thesis by (rule raised)
  next
    case (extract_raised ws slack e)
    from extract_raised(5) show ?thesis by (rule raised)
  qed
qed

lemmas example_defs =
  example_empty_net_def example_service_def example_error_def raising_externals_def
  diverging_externals_def example_empty_table_def half_solved_net_def
  half_solving_externals_def PowerFlowService_init_def

section \<open>Loading\<close>

lemma detect_format_supported:
  assumes "detect_format fname = Some fmt"
  shows "fmt = ''json'' \<or> fmt = ''excel'' \<or> fmt = ''pickle'' \<or> fmt = ''sqlite''"
  using assms by (simp add: detect_format_def FILE_FORMATS_def split: if_splits)

lemma detect_format_case_json: "detect_format ''case.json'' = Some ''json''"
  by (simp add: detect_format_def path_suffix_def path_name_def Let_def py_lower_def
        char_lower_def FILE_FORMATS_def)

lemma tmp_path_of_case_json:
  "tmp_path_of (reading_externals net) fs ''case.json'' = ''/tmp/tmpq1w2e3.json''"
  "tmp_path_of failing_externals fs ''case.json'' = ''/tmp/tmpq1w2e3.json''"
  by (simp_all add: tmp_path_of_def reading_externals_def failing_externals_def
        example_temp_name_def path_suffix_def path_name_def Let_def py_lower_def char_lower_def)

section \<open>The run on the idle network\<close>

lemma idle_slack: "slack_power idle_net True = Inr (0, 0, False)"
  by (simp add: slack_power_def slack_ext_grid_def slack_gen_def net_attr_def df_empty_def
        idle_net_def example_empty_table_def)

lemma empty_table_data:
  "dataframe_to_table_data render net (Some example_empty_table) name et = Inr None"
  by (simp add: dataframe_to_table_data_def df_empty_def example_empty_table_def)

lemma none_table_data:
  "dataframe_to_table_data render net None name et = Inr None"
  by (simp add: dataframe_to_table_data_def)

lemma py_replace_res_line: "py_replace ''res_'' [] ''res_line'' = ''line''"
  by simp

lemma round0: "py_round 0 4 = 0"
  by (simp add: py_round_def round_half_even_def)

lemma idle_line_table:
  "dataframe_to_table_data render idle_net (Some idle_line_results) ''res_line'' None
     = Inr (Some \<lparr>columns = [''idx'', ''loading_percent''],
                  data = [[(''idx'', CInt 0), (''loading_percent'', CFloat 0)]],
                  row_count = 1\<rparr>)"
  by (simp add: dataframe_to_table_data_def df_empty_def idle_line_results_def Let_def
        df_reset_index_def df_rename_def df_has_column_def df_len_def net_hasattr_def
        idle_net_def df_records_def cell_at_def round0)

lemma idle_extract:
  "extract_results render idle_net =
     Inr ((PowerFlowResult_of True [] None)
          \<lparr>res_line := Some \<lparr>columns = [''idx'', ''loading_percent''],
                  data = [[(''idx'', CInt 0), (''loading_percent'', CFloat 0)]],
                  row_count = 1\<rparr>,
           max_loading_percent := Some (Fin 0)\<rparr>)"
proof -
  have t: "net_tables idle_net ''res_bus'' = Some example_empty_table"
     "net_tables idle_net ''res_line'' = Some idle_line_results"
     "net_tables idle_net ''res_trafo'' = Some example_empty_table"
     "net_tables idle_net ''res_trafo3w'' = None"
     "net_tables idle_net ''res_load'' = Some example_empty_table"
     "net_tables idle_net ''res_gen'' = Some example_empty_table"
     "net_tables idle_net ''res_sgen'' = None"
     "net_tables idle_net ''res_ext_grid'' = Some example_empty_table"
     "net_tables idle_net ''res_shunt'' = None"
    by (simp_all add: idle_net_def)
  have m: "summary_max_loading idle_net = Inr (Some (Fin 0))"
    by (simp add: summary_max_loading_def net_attr_def t df_empty_def df_has_column_def
          df_column_def col_max_def idle_line_results_def example_empty_table_def)
  have v: "summary_vm idle_net = Inr (None, None)"
    by (simp add: summary_vm_def net_attr_def t df_empty_def example_empty_table_def)
  show ?thesis
    by (simp add: extract_results_def extract_table_def extract_optional_table_def
          net_attr_def net_attr_or_None_def net_hasattr_def t empty_table_data none_table_data
          idle_line_table
          m v PowerFlowResult_of_def)
qed

lemma idle_run_result:
  "snd idle_run =
     (PowerFlowResult_of True ''Power flow converged successfully''
        (Some \<lparr>algorithm = ''nr'', init_method = ''auto'', tolerance_mva = 1 / 100000000,
                max_iteration = 10, calculation_time_ms = Some (py_round 1000 2),
                iterations = None, warnings = [],
                slack_p_mw = None, slack_q_mvar = None\<rparr>))
          \<lparr>res_line := Some \<lparr>columns = [''idx'', ''loading_percent''],
                  data = [[(''idx'', CInt 0), (''loading_percent'', CFloat 0)]],
                  row_count = 1\<rparr>,
           max_loading_percent := Some (Fin 0)\<rparr>"
  "results (fst idle_run) = Some (snd idle_run)"
proof -
  have c: "net_converged idle_net" "net_ppc idle_net = None"
    by (simp_all add: idle_net_def)
  show "snd idle_run =
     (PowerFlowResult_of True ''Power flow converged successfully''
        (Some \<lparr>algorithm = ''nr'', init_method = ''auto'', tolerance_mva = 1 / 100000000,
                max_iteration = 10, calculation_time_ms = Some (py_round 1000 2),
                iterations = None, warnings = [],
                slack_p_mw = None, slack_q_mvar = None\<rparr>))
          \<lparr>res_line := Some \<lparr>columns = [''idx'', ''loading_percent''],
                  data = [[(''idx'', CInt 0), (''loading_percent'', CFloat 0)]],
                  row_count = 1\<rparr>,
           max_loading_percent := Some (Fin 0)\<rparr>"
    by (simp add: idle_run_def run_powerflow_def run_powerflow_try_def Let_def
        idle_externals_def idle_slack idle_extract resolve_max_iteration_table
        calculation_log_of_def actual_iterations_of_def c PowerFlowResult_of_def)
  show "results (fst idle_run) = Some (snd idle_run)"
    by (simp add: idle_run_def run_powerflow_def Let_def split: prod.splits)
qed

lemma raising_run_results: "results (fst raising_run) = Some (snd raising_run)"
  by (simp add: raising_run_def run_powerflow_def Let_def split: prod.splits)

lemma or_NA_sentinel: "or_NA x = XText ''N/A'' \<longleftrightarrow> x = None \<or> x = Some (Fin 0)"
  by (cases x rule: float_truthy.cases) (simp_all add: or_NA_def)

section \<open>The slack power on a network that meets the contract\<close>






























section \<open>C1: the slack power in the calculation log\<close>




section \<open>C2: session files are written in place\<close>



section \<open>C3: the Summary sheet of the export\<close>

text \<open>
  C3. The export of a converged result writes \<^verbatim>\<open>x or "N/A"\<close> into the Summary
  sheet, so a summary field that is present with the number 0 is written as the text
  \<^verbatim>\<open>N/A\<close>, like an absent one. The run on the idle network converges with a
  maximum loading of 0.0; the workbook exported from it has the sheet of the line table
  and one Summary sheet of four rows, whose row \<^verbatim>\<open>Max Loading (%)\<close> holds
  \<^verbatim>\<open>N/A\<close> and not 0.0.
\<close>

theorem zero_loading_exported_as_NA:
  "converged (snd idle_run)
   \<and> max_loading_percent (snd idle_run) = Some (Fin 0)
   \<and> export_results_to_excel (fst idle_run) =
       Inr [(''res_line'', TableSheet [[(''idx'', CInt 0), (''loading_percent'', CFloat 0)]]),
            (''Summary'', SummarySheet
               [(''Converged'', XText ''Yes''),
                (''Max Loading (%)'', XText ''N/A''),
                (''Min Voltage (p.u.)'', XText ''N/A''),
                (''Max Voltage (p.u.)'', XText ''N/A'')])]"
  by (simp add: export_results_to_excel_def idle_run_result PowerFlowResult_of_def
        result_tables_def summary_data_def or_NA_def)

section \<open>C4: an exception of the solver becomes a result\<close>

text \<open>
  C4. When the solver \<^verbatim>\<open>pp.runpp\<close> raises an exception \<open>e\<close> (an instance of
  \<^verbatim>\<open>Exception\<close>), \<^verbatim>\<open>run_powerflow\<close> returns a result, and that result has
  \<open>converged = False\<close>, the message \<^verbatim>\<open>Power flow calculation failed: \<close> followed by
  \<^verbatim>\<open>str(e)\<close>, and a calculation log whose warnings are exactly \<^verbatim>\<open>[str(e)]\<close>.
  The method is a total function into results: its value has no exception alternative.
\<close>

theorem solver_exception_contained:
  assumes "pp_runpp ext (network self)
             (run_args algo (resolve_max_iteration algo max_iter) q va init tol) = (net, Inl e)"
      and "run_powerflow ext self algo max_iter q va init tol = (self', r)"
  shows "\<not> converged r
       \<and> message r = ''Power flow calculation failed: '' @ exc_str e
       \<and> (\<exists>clog. calculation_log r = Some clog \<and> warnings clog = [exc_str e])"
proof -
  from assms(2) obtain net' out where
    t: "run_powerflow_try ext self algo (resolve_max_iteration algo max_iter) q va init tol = (net', out)"
    and r: "r = (case out of Inr r0 \<Rightarrow> r0
          | Inl e \<Rightarrow> failure_result ext algo (resolve_max_iteration algo max_iter) init tol e)"
    by (rule run_powerflow_result)
  from t assms(1) have "out = Inl e"
    by (simp add: run_powerflow_try_def)
  with r have "r = failure_result ext algo (resolve_max_iteration algo max_iter) init tol e"
    by simp
  then show ?thesis
    using failure_result_fields[of ext algo "resolve_max_iteration algo max_iter" init tol e]
    by auto
qed

text \<open>An instance: the solver raises \<^verbatim>\<open>UserWarning("no external grid")\<close>.\<close>

theorem solver_exception_contained_witness:
  "\<not> converged (snd raising_run)
   \<and> message (snd raising_run) = ''Power flow calculation failed: no external grid''
   \<and> (\<exists>clog. calculation_log (snd raising_run) = Some clog
        \<and> warnings clog = [''no external grid''])"
proof -
  have h: "pp_runpp raising_externals (network example_service)
             (run_args ''nr'' (resolve_max_iteration ''nr'' None) False True ''auto'' (1 / 100000000))
           = (example_empty_net, Inl example_error)"
    by (simp add: example_defs)
  have r: "run_powerflow raising_externals example_service ''nr'' None False True ''auto''
             (1 / 100000000) = (fst raising_run, snd raising_run)"
    by (simp add: raising_run_def)
  show ?thesis
    using solver_exception_contained[OF h r] by (simp add: example_error_def)
qed

section \<open>C5: every exception inside the method becomes a result\<close>

text \<open>
  C5. \<^verbatim>\<open>run_powerflow\<close> returns a result for every input (it is a total function
  into results), and for every returned result \<open>r\<close>:
  \<^item> an exception \<open>e\<close> that ends the \<^verbatim>\<open>try\<close> block, wherever it is raised, gives
    \<open>converged = False\<close>, the message \<^verbatim>\<open>Power flow calculation failed: \<close> followed
    by \<^verbatim>\<open>str(e)\<close>, and the warnings \<^verbatim>\<open>[str(e)]\<close>;
  \<^item> in particular so does an exception raised while the slack power is summed or
    the results are extracted, after the solver has returned with the convergence flag
    set;
  \<^item> \<open>converged r\<close> implies that the convergence flag of the network is set and that
    the extraction of the results returned without an exception.
\<close>

theorem run_powerflow_contains_every_exception:
  assumes "run_powerflow ext self algo max_iter q va init tol = (self', r)"
  shows "(snd (run_powerflow_try ext self algo
                   (resolve_max_iteration algo max_iter) q va init tol) = Inl e
            \<longrightarrow> \<not> converged r
              \<and> message r = ''Power flow calculation failed: '' @ exc_str e
              \<and> (\<exists>clog. calculation_log r = Some clog \<and> warnings clog = [exc_str e]))
       \<and> (pp_runpp ext (network self)
                    (run_args algo (resolve_max_iteration algo max_iter) q va init tol)
                    = (network self', Inr ws)
                 \<and> net_converged (network self')
                 \<and> (slack_power (network self') True = Inl e'
                    \<or> (\<exists>slack. slack_power (network self') True = Inr slack)
                       \<and> extract_results (render_scalar ext) (network self') = Inl e')
            \<longrightarrow> \<not> converged r
              \<and> message r = ''Power flow calculation failed: '' @ exc_str e'
              \<and> (\<exists>clog. calculation_log r = Some clog \<and> warnings clog = [exc_str e']))
       \<and> (converged r
            \<longrightarrow> net_converged (network self')
              \<and> (\<exists>r0. extract_results (render_scalar ext) (network self') = Inr r0))"
proof -
  from assms(1) obtain net out where
    t: "run_powerflow_try ext self algo (resolve_max_iteration algo max_iter) q va init tol = (net, out)"
    and n: "network self' = net"
    and r: "r = (case out of Inr r0 \<Rightarrow> r0
          | Inl e \<Rightarrow> failure_result ext algo (resolve_max_iteration algo max_iter) init tol e)"
    by (rule run_powerflow_result)
  have raised: "\<not> converged r
              \<and> message r = ''Power flow calculation failed: '' @ exc_str x
              \<and> (\<exists>clog. calculation_log r = Some clog \<and> warnings clog = [exc_str x])"
    if "out = Inl x" for x
    using that r by (simp add: failure_result_of PowerFlowResult_of_fields)
  have first: "snd (run_powerflow_try ext self algo
                   (resolve_max_iteration algo max_iter) q va init tol) = Inl e
            \<longrightarrow> \<not> converged r
              \<and> message r = ''Power flow calculation failed: '' @ exc_str e
              \<and> (\<exists>clog. calculation_log r = Some clog \<and> warnings clog = [exc_str e])"
    using t raised by simp
  have second: "pp_runpp ext (network self)
                    (run_args algo (resolve_max_iteration algo max_iter) q va init tol)
                    = (network self', Inr ws)
                 \<and> net_converged (network self')
                 \<and> (slack_power (network self') True = Inl e'
                    \<or> (\<exists>slack. slack_power (network self') True = Inr slack)
                       \<and> extract_results (render_scalar ext) (network self') = Inl e')
            \<longrightarrow> \<not> converged r
              \<and> message r = ''Power flow calculation failed: '' @ exc_str e'
              \<and> (\<exists>clog. calculation_log r = Some clog \<and> warnings clog = [exc_str e'])"
  proof
    assume a: "pp_runpp ext (network self)
                    (run_args algo (resolve_max_iteration algo max_iter) q va init tol)
                    = (network self', Inr ws)
                 \<and> net_converged (network self')
                 \<and> (slack_power (network self') True = Inl e'
                    \<or> (\<exists>slack. slack_power (network self') True = Inr slack)
                       \<and> extract_results (render_scalar ext) (network self') = Inl e')"
    with t n have "out = Inl e'"
      by (auto simp: run_powerflow_try_def Let_def)
    then show "\<not> converged r
              \<and> message r = ''Power flow calculation failed: '' @ exc_str e'
              \<and> (\<exists>clog. calculation_log r = Some clog \<and> warnings clog = [exc_str e'])"
      by (rule raised)
  qed
  have third: "converged r
            \<longrightarrow> net_converged (network self')
              \<and> (\<exists>r0. extract_results (render_scalar ext) (network self') = Inr r0)"
  proof
    assume c: "converged r"
    from t show "net_converged (network self')
              \<and> (\<exists>r0. extract_results (render_scalar ext) (network self') = Inr r0)"
    proof (cases rule: run_try_cases)
      case (run_converged ws slack r0)
      with n show ?thesis by simp
    next
      case (not_converged ws)
      with r c show ?thesis by (simp add: PowerFlowResult_of_fields)
    qed (use raised c in auto)
  qed
  from first second third show ?thesis by blast
qed

text \<open>
  An instance: the solver returns with the convergence flag set and leaves no table
  \<^verbatim>\<open>res_bus\<close>; the extraction raises \<^verbatim>\<open>AttributeError\<close> and the method returns
  the failure result.
\<close>

theorem run_powerflow_contains_every_exception_witness:
  "net_converged (network (fst half_solved_run))
   \<and> \<not> converged (snd half_solved_run)
   \<and> message (snd half_solved_run)
       = ''Power flow calculation failed: '' @ no_attribute_text ''res_bus''
   \<and> (\<exists>clog. calculation_log (snd half_solved_run) = Some clog
        \<and> warnings clog = [no_attribute_text ''res_bus''])"
proof -
  have r: "run_powerflow half_solving_externals example_service ''nr'' None False True ''auto''
             (1 / 100000000) = (fst half_solved_run, snd half_solved_run)"
    by (simp add: half_solved_run_def)
  have n: "network (fst half_solved_run) = half_solved_net"
    by (simp add: half_solved_run_def run_powerflow_def run_powerflow_try_def Let_def
          half_solving_externals_def split: prod.splits)
  have p: "pp_runpp half_solving_externals (network example_service)
             (run_args ''nr'' (resolve_max_iteration ''nr'' None) False True ''auto'' (1 / 100000000))
           = (half_solved_net, Inr [])"
    by (simp add: half_solving_externals_def)
  have c: "net_converged half_solved_net"
    by (simp add: half_solved_net_def)
  have s: "slack_power half_solved_net True = Inr (0, 0, False)"
    by (simp add: slack_power_def slack_ext_grid_def slack_gen_def net_attr_def df_empty_def
          half_solved_net_def example_empty_table_def)
  have x: "extract_results (render_scalar half_solving_externals) half_solved_net
             = Inl (Exc AttributeError (no_attribute_text ''res_bus''))"
    by (simp add: extract_results_def extract_table_def net_attr_def half_solved_net_def)
  have s': "\<exists>slack. slack_power half_solved_net True = Inr slack"
    using s by blast
  have a: "pp_runpp half_solving_externals (network example_service)
             (run_args ''nr'' (resolve_max_iteration ''nr'' None) False True ''auto'' (1 / 100000000))
             = (network (fst half_solved_run), Inr [])
           \<and> net_converged (network (fst half_solved_run))
           \<and> (slack_power (network (fst half_solved_run)) True = Inl (Exc AttributeError (no_attribute_text ''res_bus''))
              \<or> (\<exists>slack. slack_power (network (fst half_solved_run)) True = Inr slack)
                 \<and> extract_results (render_scalar half_solving_externals)
                       (network (fst half_solved_run)) = Inl (Exc AttributeError (no_attribute_text ''res_bus'')))"
    unfolding n using p c s' x by blast
  from run_powerflow_contains_every_exception
         [where ws = "[]" and e' = "Exc AttributeError (no_attribute_text ''res_bus'')", OF r] a
  have "\<not> converged (snd half_solved_run)
        \<and> message (snd half_solved_run)
            = ''Power flow calculation failed: '' @ exc_str (Exc AttributeError (no_attribute_text ''res_bus''))
        \<and> (\<exists>clog. calculation_log (snd half_solved_run) = Some clog
             \<and> warnings clog = [exc_str (Exc AttributeError (no_attribute_text ''res_bus''))])"
    by blast
  with n c show ?thesis by simp
qed

section \<open>C6: the shape of a result that did not converge\<close>

text \<open>
  C6. Every result that \<^verbatim>\<open>run_powerflow\<close> returns with \<open>converged = False\<close> has
  all nine result tables \<^verbatim>\<open>None\<close>, and a calculation log whose warnings are not
  empty: they contain the notice \<^verbatim>\<open>Power flow did not converge\<close>, or the text of the
  exception that ended the \<^verbatim>\<open>try\<close> block.
\<close>

theorem not_converged_result_shape:
  assumes "run_powerflow ext self algo max_iter q va init tol = (self', r)"
      and "\<not> converged r"
  shows "res_bus r = None \<and> res_line r = None \<and> res_trafo r = None \<and> res_trafo3w r = None
       \<and> res_load r = None \<and> res_gen r = None \<and> res_sgen r = None
       \<and> res_ext_grid r = None \<and> res_shunt r = None
       \<and> (\<exists>clog. calculation_log r = Some clog \<and> warnings clog \<noteq> []
            \<and> (''Power flow did not converge'' \<in> set (warnings clog)
               \<or> (\<exists>e. snd (run_powerflow_try ext self algo
                            (resolve_max_iteration algo max_iter) q va init tol) = Inl e
                       \<and> exc_str e \<in> set (warnings clog))))"
proof -
  from assms(1) obtain net out where
    t: "run_powerflow_try ext self algo (resolve_max_iteration algo max_iter) q va init tol = (net, out)"
    and r: "r = (case out of Inr r0 \<Rightarrow> r0
          | Inl e \<Rightarrow> failure_result ext algo (resolve_max_iteration algo max_iter) init tol e)"
    by (rule run_powerflow_result)
  have raised: ?thesis if "out = Inl e" for e
    using that r t by (simp add: failure_result_of PowerFlowResult_of_fields)
  from t show ?thesis
  proof (cases rule: run_try_cases)
    case (run_converged ws slack r0)
    with r assms(2) extract_results_Inr(1)[of "render_scalar ext" net r0]
    show ?thesis by simp
  next
    case (not_converged ws)
    with r show ?thesis by (simp add: PowerFlowResult_of_fields)
  next
    case (solver_raised e)
    from solver_raised(2) show ?thesis by (rule raised)
  next
    case (slack_raised ws e)
    from slack_raised(4) show ?thesis by (rule raised)
  next
    case (extract_raised ws slack e)
    from extract_raised(5) show ?thesis by (rule raised)
  qed
qed

text \<open>
  An instance: the solver returns without converging, with one warning of its own; the
  log holds that warning and the notice.
\<close>

theorem not_converged_result_shape_witness:
  "\<not> converged (snd diverging_run)
   \<and> res_bus (snd diverging_run) = None \<and> res_line (snd diverging_run) = None
   \<and> res_trafo (snd diverging_run) = None \<and> res_trafo3w (snd diverging_run) = None
   \<and> res_load (snd diverging_run) = None \<and> res_gen (snd diverging_run) = None
   \<and> res_sgen (snd diverging_run) = None \<and> res_ext_grid (snd diverging_run) = None
   \<and> res_shunt (snd diverging_run) = None
   \<and> (\<exists>clog. calculation_log (snd diverging_run) = Some clog
        \<and> warnings clog = [''slow progress'', ''Power flow did not converge''])"
proof -
  have r: "run_powerflow diverging_externals example_service ''nr'' None False True ''auto''
             (1 / 100000000) = (fst diverging_run, snd diverging_run)"
    by (simp add: diverging_run_def)
  have v: "snd diverging_run =
             PowerFlowResult_of False ''Power flow did not converge''
               (Some \<lparr>algorithm = ''nr'', init_method = ''auto'', tolerance_mva = 1 / 100000000,
                       max_iteration = 10, calculation_time_ms = Some (py_round 1000 2),
                       iterations = None,
                       warnings = [''slow progress'', ''Power flow did not converge''],
                       slack_p_mw = None, slack_q_mvar = None\<rparr>)"
    by (simp add: diverging_run_def run_powerflow_def run_powerflow_try_def example_defs
          slack_power_def Let_def calculation_log_of_def actual_iterations_of_def
          resolve_max_iteration_table)
  have h: "\<not> converged (snd diverging_run)"
    by (simp add: v PowerFlowResult_of_fields)
  show ?thesis
    using not_converged_result_shape[OF r h] h by (simp add: v PowerFlowResult_of_fields)
qed

section \<open>C7: a created session is read back\<close>

text \<open>
  C7. For every service, every session directory and every identifier that
  \<^verbatim>\<open>uuid4\<close> returns: \<^verbatim>\<open>get_session\<close> on the directory that
  \<^verbatim>\<open>create_session\<close> leaves, with the identifier it returns, yields a service
  with the network, the file name, the file format and the cached results of the created
  service. The results are \<^verbatim>\<open>None\<close> when those of the created service are, as
  for a service that \<^verbatim>\<open>load_network\<close> has just returned.
\<close>

theorem session_round_trip:
  "\<exists>s. get_session (fst (create_session session_id dir service))
            (snd (create_session session_id dir service)) = Some s
       \<and> network s = network service \<and> filename s = filename service
       \<and> file_format s = file_format service \<and> results s = results service"
  by (simp add: create_session_def get_session_def Let_def pickle_dump_def open_wb_def
        session_dict_of_def PowerFlowService_init_def)

text \<open>
  A service on which a power flow has run keeps its cached result through
  \<^verbatim>\<open>create_session\<close>: the session read back has results that are not
  \<^verbatim>\<open>None\<close>.
\<close>

theorem session_keeps_cached_results:
  "\<exists>s. get_session (fst (create_session ''0f8fad5b'' Map.empty (fst raising_run)))
            (snd (create_session ''0f8fad5b'' Map.empty (fst raising_run))) = Some s
       \<and> results s \<noteq> None"
  by (simp add: create_session_def get_session_def Let_def pickle_dump_def open_wb_def
        session_dict_of_def PowerFlowService_init_def raising_run_results)

section \<open>C8: the iteration cap\<close>

text \<open>
  C8. For every call of \<^verbatim>\<open>run_powerflow\<close>, the result carries a calculation log
  whose \<open>max_iteration\<close> is the resolved cap: the explicit cap verbatim when one is
  given; otherwise 10 for \<^verbatim>\<open>nr\<close> and for \<^verbatim>\<open>iwamoto_nr\<close>, 100 for
  \<^verbatim>\<open>bfsw\<close>, 1000 for \<^verbatim>\<open>gs\<close>, 30 for \<^verbatim>\<open>fdbx\<close> and
  \<^verbatim>\<open>fdxb\<close>, and 30 for every other algorithm. The table of the source has six
  entries, one more than the five the specification lists.
\<close>

theorem resolved_cap_recorded:
  assumes "run_powerflow ext self algo max_iter q va init tol = (self', r)"
  shows "\<exists>clog. calculation_log r = Some clog
           \<and> max_iteration clog =
               (case max_iter of
                  Some m \<Rightarrow> m
                | None \<Rightarrow>
                    if algo = ''nr'' \<or> algo = ''iwamoto_nr'' then 10
                    else if algo = ''bfsw'' then 100
                    else if algo = ''gs'' then 1000
                    else if algo = ''fdbx'' \<or> algo = ''fdxb'' then 30
                    else 30)"
proof -
  from run_powerflow_log[OF assms] obtain clog where
    c: "calculation_log r = Some clog" and
    m: "max_iteration clog = resolve_max_iteration algo max_iter"
    by blast
  from m have "max_iteration clog =
               (case max_iter of
                  Some m \<Rightarrow> m
                | None \<Rightarrow>
                    if algo = ''nr'' \<or> algo = ''iwamoto_nr'' then 10
                    else if algo = ''bfsw'' then 100
                    else if algo = ''gs'' then 1000
                    else if algo = ''fdbx'' \<or> algo = ''fdxb'' then 30
                    else 30)"
    by (simp only: resolve_max_iteration_table)
  with c show ?thesis by blast
qed

text \<open>
  An instance: Gauss-Seidel without an explicit cap, on a solver that raises; the log of
  the failure result records 1000.
\<close>

theorem resolved_cap_recorded_witness:
  "\<exists>clog. calculation_log (snd (run_powerflow raising_externals example_service ''gs'' None
              False True ''auto'' (1 / 100000000))) = Some clog
         \<and> max_iteration clog = 1000"
  using resolved_cap_recorded[of raising_externals example_service "''gs''" None
          False True "''auto''" "1 / 100000000"
          "fst (run_powerflow raising_externals example_service ''gs'' None
              False True ''auto'' (1 / 100000000))"
          "snd (run_powerflow raising_externals example_service ''gs'' None
              False True ''auto'' (1 / 100000000))"]
  by simp

text \<open>
  The specification's five-entry table sends \<^verbatim>\<open>iwamoto_nr\<close> to the fallback 30;
  the source resolves it to 10.
\<close>

theorem iwamoto_not_in_spec_table:
  "resolve_max_iteration ''iwamoto_nr'' None = 10 \<and> spec_resolve ''iwamoto_nr'' None = 30"
  by (simp add: resolve_max_iteration_def spec_resolve_def dict_get_def
        ALGORITHM_DEFAULT_ITERATIONS_def)

section \<open>C9: a network without buses is refused\<close>

text \<open>
  C9. For every file name whose extension maps to a supported format, whatever that
  format is: when the reader of the format returns a pandapower network whose bus table
  has no rows, \<^verbatim>\<open>load_network\<close> raises
  \<^verbatim>\<open>ValueError("Network must contain at least one bus")\<close> and returns no service.
\<close>

theorem zero_buses_rejected:
  assumes "detect_format fname = Some fmt"
      and "deserialize ld fmt (fs(tmp_path_of ld fs fname \<mapsto> content)) (tmp_path_of ld fs fname)
             = Inr (PandapowerNet net)"
      and "net_tables net ''bus'' = Some net_bus"
      and "df_len net_bus = 0"
  shows "snd (load_network ld fs content fname)
           = Inl (Exc ValueError ''Network must contain at least one bus'')"
proof -
  from assms(2-4)
  have "load_network_try ld fmt fname (fs(tmp_path_of ld fs fname \<mapsto> content))
          (tmp_path_of ld fs fname)
        = Inl (Exc ValueError ''Network must contain at least one bus'')"
    by (simp add: load_network_try_def net_attr_def)
  with assms(1) show ?thesis
    by (simp add: load_network_def Let_def load_network_except_def is_ValueError_def)
qed

text \<open>An instance: a JSON file that reads as a network with an empty bus table.\<close>

theorem zero_buses_rejected_witness:
  "snd (load_network (reading_externals no_bus_net) Map.empty ''{}'' ''case.json'')
     = Inl (Exc ValueError ''Network must contain at least one bus'')"
proof -
  have d: "deserialize (reading_externals no_bus_net) ''json''
             (Map.empty(tmp_path_of (reading_externals no_bus_net) Map.empty ''case.json'' \<mapsto> ''{}''))
             (tmp_path_of (reading_externals no_bus_net) Map.empty ''case.json'')
           = Inr (PandapowerNet no_bus_net)"
    by (simp add: deserialize_def reading_externals_def example_reader_def)
  have b: "net_tables no_bus_net ''bus'' = Some no_bus_table"
    by (simp add: no_bus_net_def)
  have z: "df_len no_bus_table = 0"
    by (simp add: df_len_def no_bus_table_def)
  show ?thesis
    using zero_buses_rejected[OF detect_format_case_json d b z] .
qed

section \<open>C10: the scratch file\<close>

text \<open>
  Once the scratch file is written, every path through the \<^verbatim>\<open>try\<close> statement
  removes it: for a file name of a supported format, whatever the readers do (return a
  network, return another object, or raise), the file system the call leaves has no file
  at the path of the scratch file, and every other path holds what it held before.
\<close>

lemma scratch_file_removed:
  assumes "detect_format fname = Some fmt"
  shows "tmp_path_of ld fs fname \<notin> dom (fst (load_network ld fs content fname))
       \<and> fst (load_network ld fs content fname) = fs(tmp_path_of ld fs fname := None)"
  using assms by (simp add: load_network_def Let_def)

lemma load_network_io_completed:
  "load_network_io WriteCompleted ld fs content fname = load_network ld fs content fname"
  by (simp add: load_network_io_def split: option.splits)

text \<open>
  Two instances, on an empty file system: a reader that raises, where the call raises
  \<^verbatim>\<open>ValueError\<close>; and a reader that returns a network with one bus, where the call
  returns a service. Both leave the file system empty.
\<close>

lemma scratch_file_removed_examples:
  "fst (load_network failing_externals Map.empty ''{}'' ''case.json'') = Map.empty
   \<and> snd (load_network failing_externals Map.empty ''{}'' ''case.json'')
       = Inl (Exc ValueError ''Failed to load network: not a network'')
   \<and> fst (load_network (reading_externals one_bus_net) Map.empty ''{}'' ''case.json'') = Map.empty
   \<and> snd (load_network (reading_externals one_bus_net) Map.empty ''{}'' ''case.json'')
       = Inr (PowerFlowService_init one_bus_net ''case.json'' ''json'')"
proof -
  have f: "snd (load_network failing_externals Map.empty ''{}'' ''case.json'')
       = Inl (Exc ValueError ''Failed to load network: not a network'')"
    by (simp add: load_network_def detect_format_case_json Let_def load_network_try_def
          deserialize_def failing_externals_def load_network_except_def is_ValueError_def)
  have g: "snd (load_network (reading_externals one_bus_net) Map.empty ''{}'' ''case.json'')
       = Inr (PowerFlowService_init one_bus_net ''case.json'' ''json'')"
    by (simp add: load_network_def detect_format_case_json Let_def load_network_try_def
          deserialize_def reading_externals_def example_reader_def net_attr_def
          one_bus_net_def one_bus_table_def df_len_def)
  from scratch_file_removed[OF detect_format_case_json, of failing_externals Map.empty "''{}''"]
       scratch_file_removed[OF detect_format_case_json, of "reading_externals one_bus_net"
          Map.empty "''{}''"]
       f g
  show ?thesis by simp
qed

text \<open>
  C10. The scratch file is not removed on every failure path. The \<^verbatim>\<open>with\<close> block
  that creates and writes it stands before the \<^verbatim>\<open>try\<close> statement whose
  \<^verbatim>\<open>finally\<close> clause unlinks it. When the write raises
  \<^verbatim>\<open>OSError\<close> for a full disk after one byte has reached the file, the call
  raises that \<^verbatim>\<open>OSError\<close> and the file system it leaves still holds the scratch
  file, with that byte; when the write completes, the same call returns a service and
  leaves no file.
\<close>

theorem failed_write_leaves_scratch_file:
  "load_network_io
     (WriteRaised (Exc (OtherException ''OSError'') ''[Errno 28] No space left on device'') ''{'')
     (reading_externals one_bus_net) Map.empty ''{}'' ''case.json''
     = ([''/tmp/tmpq1w2e3.json'' \<mapsto> ''{''],
        Inl (Exc (OtherException ''OSError'') ''[Errno 28] No space left on device''))
   \<and> load_network_io WriteCompleted (reading_externals one_bus_net) Map.empty ''{}'' ''case.json''
     = (Map.empty, Inr (PowerFlowService_init one_bus_net ''case.json'' ''json''))"
proof -
  have g: "load_network (reading_externals one_bus_net) Map.empty ''{}'' ''case.json''
       = (Map.empty, Inr (PowerFlowService_init one_bus_net ''case.json'' ''json''))"
    by (simp add: load_network_def detect_format_case_json Let_def load_network_try_def
          deserialize_def reading_externals_def example_reader_def net_attr_def
          one_bus_net_def one_bus_table_def df_len_def)
  show ?thesis
    by (simp add: load_network_io_def detect_format_case_json tmp_path_of_case_json g)
qed

end
